theory Spec2Isabelle
  imports Complex_Main
begin

section \<open>Strings and numbers of the source language\<close>

text \<open>
  A source string is a \<^typ>\<open>string\<close>, one \<^typ>\<open>char\<close> for each code unit, so that
  \<^term>\<open>length\<close> is the source's \<open>.length\<close>; the strings covered are those of Latin-1
  characters. Indices into the document are natural numbers, as the document service
  gives them; the magnitudes of a style (font size, spacing, colour components) are
  rationals.
\<close>

type_synonym number = rat

text \<open>A template literal \<open>`${n}`\<close> prints a natural number in decimal.\<close>

definition digit_char :: "nat \<Rightarrow> char" where
  "digit_char d = ''0123456789'' ! d"

function show_nat :: "nat \<Rightarrow> string" where
  "show_nat n = (if n < 10 then [digit_char n] else show_nat (n div 10) @ [digit_char (n mod 10)])"
  by pat_completeness auto
termination
  by (relation "measure id") auto

declare show_nat.simps [simp del]

text \<open>\<open>xs.join(sep)\<close>\<close>

fun join :: "string \<Rightarrow> string list \<Rightarrow> string" where
  "join sep [] = []"
| "join sep [x] = x"
| "join sep (x # y # ys) = x @ sep @ join sep (y # ys)"

section \<open>Mutation instructions\<close>

text \<open>
  The style payloads are the document service's \<open>TextStyle\<close> and \<open>ParagraphStyle\<close>
  objects; a field that is absent from the object is \<^term>\<open>None\<close>. The same
  \<open>TextStyle\<close> type is read back by the renderer from a text run. A colour is written
  without its two wrappers \<open>{color: {rgbColor: ...}}\<close>, and \<open>weightedFontFamily\<close> holds
  the \<open>fontFamily\<close> of that object.
\<close>

record RgbColor =
  red :: "number option"
  green :: "number option"
  blue :: "number option"

record Dimension =
  magnitude :: number
  unit :: string

record Link =
  url :: "string option"

record TextStyle =
  bold :: "bool option"
  italic :: "bool option"
  underline :: "bool option"
  strikethrough :: "bool option"
  fontSize :: "Dimension option"
  foregroundColor :: "RgbColor option"
  backgroundColor :: "RgbColor option"
  link :: "Link option"
  weightedFontFamily :: "string option"

record ParagraphStyle =
  namedStyleType :: "string option"
  alignment :: "string option"
  lineSpacing :: "number option"
  direction :: "string option"
  indentStart :: "Dimension option"
  indentEnd :: "Dimension option"
  indentFirstLine :: "Dimension option"

definition emptyTextStyle :: TextStyle where
  "emptyTextStyle = \<lparr>bold = None, italic = None, underline = None, strikethrough = None,
     fontSize = None, foregroundColor = None, backgroundColor = None, link = None,
     weightedFontFamily = None\<rparr>"

definition emptyParagraphStyle :: ParagraphStyle where
  "emptyParagraphStyle = \<lparr>namedStyleType = None, alignment = None, lineSpacing = None,
     direction = None, indentStart = None, indentEnd = None, indentFirstLine = None\<rparr>"

text \<open>
  The five kinds of request the compiler emits. A range is written with its start and
  end index; the last argument of the two style updates is the field mask \<open>fields\<close>.
\<close>

datatype request =
    InsertText nat string
  | DeleteContentRange nat nat
  | UpdateTextStyle nat nat TextStyle string
  | UpdateParagraphStyle nat nat ParagraphStyle string
  | CreateParagraphBullets nat nat string

section \<open>Content items and \<open>generateRequestsFromContent\<close>\<close>

text \<open>
  The three variants of \<open>contentItemSchema\<close>; the level of a heading is an integer from
  1 to 6.
\<close>

datatype contentItem =
    HeadingItem nat string
  | ParagraphItem string
  | BulletListItem "string list"

text \<open>
  The inner loop over the items of a bullet list. The mutable locals \<open>requests\<close> and
  \<open>currentIndex\<close> are passed in and returned.
\<close>

fun bulletItemsLoop :: "string list \<Rightarrow> request list \<Rightarrow> nat \<Rightarrow> request list \<times> nat" where
  "bulletItemsLoop [] requests currentIndex = (requests, currentIndex)"
| "bulletItemsLoop (bulletItem # items) requests currentIndex =
     (let text = bulletItem @ ''\<newline>'';
          textStartIndex = currentIndex;
          textEndIndex = currentIndex + length text
      in bulletItemsLoop items
           (requests @
             [InsertText currentIndex text,
              UpdateParagraphStyle textStartIndex textEndIndex
                (emptyParagraphStyle\<lparr>namedStyleType := Some ''NORMAL_TEXT''\<rparr>) ''namedStyleType'',
              CreateParagraphBullets textStartIndex textEndIndex ''BULLET_DISC_CIRCLE_SQUARE''])
           (currentIndex + length text))"

text \<open>The outer loop over the content items.\<close>

fun contentLoop :: "contentItem list \<Rightarrow> request list \<Rightarrow> nat \<Rightarrow> request list \<times> nat" where
  "contentLoop [] requests currentIndex = (requests, currentIndex)"
| "contentLoop (HeadingItem level txt # content) requests currentIndex =
     (let text = txt @ ''\<newline>''
      in contentLoop content
           (requests @
             [InsertText currentIndex text,
              UpdateParagraphStyle currentIndex (currentIndex + length text)
                (emptyParagraphStyle\<lparr>namedStyleType := Some (''HEADING_'' @ show_nat level)\<rparr>)
                ''namedStyleType''])
           (currentIndex + length text))"
| "contentLoop (ParagraphItem txt # content) requests currentIndex =
     (let text = txt @ ''\<newline>''
      in contentLoop content (requests @ [InsertText currentIndex text])
           (currentIndex + length text))"
| "contentLoop (BulletListItem items # content) requests currentIndex =
     (case bulletItemsLoop items requests currentIndex of
        (requests', currentIndex') \<Rightarrow> contentLoop content requests' currentIndex')"

definition generateRequestsFromContent :: "contentItem list \<Rightarrow> nat \<Rightarrow> request list" where
  "generateRequestsFromContent content startIndex = fst (contentLoop content [] startIndex)"

text \<open>The insertion points of a request list: the index of every \<open>insertText\<close>, in order.\<close>

fun insertionPoints :: "request list \<Rightarrow> nat list" where
  "insertionPoints [] = []"
| "insertionPoints (InsertText i t # rs) = i # insertionPoints rs"
| "insertionPoints (r # rs) = insertionPoints rs"

section \<open>The edit intent\<close>

datatype operation =
    OpInsertAfter | OpInsertBefore | OpReplace | OpDelete | OpUpdateTextStyle
  | OpUpdateParagraphStyle

fun operationName :: "operation \<Rightarrow> string" where
  "operationName OpInsertAfter = ''insertAfter''"
| "operationName OpInsertBefore = ''insertBefore''"
| "operationName OpReplace = ''replace''"
| "operationName OpDelete = ''delete''"
| "operationName OpUpdateTextStyle = ''updateTextStyle''"
| "operationName OpUpdateParagraphStyle = ''updateParagraphStyle''"

text \<open>\<open>textStyleSchema\<close>: every attribute is optional; \<^term>\<open>None\<close> is \<open>undefined\<close>.\<close>

record textStyleSchema =
  ts_bold :: "bool option"
  ts_italic :: "bool option"
  ts_underline :: "bool option"
  ts_strikethrough :: "bool option"
  ts_fontSize :: "number option"
  ts_foregroundColor :: "RgbColor option"
  ts_backgroundColor :: "RgbColor option"
  ts_link :: "string option"

datatype headingLevel =
    NORMAL_TEXT | HEADING_1 | HEADING_2 | HEADING_3 | HEADING_4 | HEADING_5 | HEADING_6

fun headingLevelName :: "headingLevel \<Rightarrow> string" where
  "headingLevelName NORMAL_TEXT = ''NORMAL_TEXT''"
| "headingLevelName HEADING_1 = ''HEADING_1''"
| "headingLevelName HEADING_2 = ''HEADING_2''"
| "headingLevelName HEADING_3 = ''HEADING_3''"
| "headingLevelName HEADING_4 = ''HEADING_4''"
| "headingLevelName HEADING_5 = ''HEADING_5''"
| "headingLevelName HEADING_6 = ''HEADING_6''"

datatype alignmentEnum = START | CENTER | END | JUSTIFIED

fun alignmentName :: "alignmentEnum \<Rightarrow> string" where
  "alignmentName START = ''START''"
| "alignmentName CENTER = ''CENTER''"
| "alignmentName END = ''END''"
| "alignmentName JUSTIFIED = ''JUSTIFIED''"

datatype directionEnum = LEFT_TO_RIGHT | RIGHT_TO_LEFT

fun directionName :: "directionEnum \<Rightarrow> string" where
  "directionName LEFT_TO_RIGHT = ''LEFT_TO_RIGHT''"
| "directionName RIGHT_TO_LEFT = ''RIGHT_TO_LEFT''"

record paragraphStyleSchema =
  ps_headingLevel :: "headingLevel option"
  ps_alignment :: "alignmentEnum option"
  ps_lineSpacing :: "number option"
  ps_direction :: "directionEnum option"
  ps_indentStart :: "number option"
  ps_indentEnd :: "number option"
  ps_indentFirstLine :: "number option"

record jsonPathOperationSchema =
  doc_id_or_url :: string
  operation :: operation
  target :: string
  args_content :: "contentItem list option"
  args_textStyle :: "textStyleSchema option"
  args_paragraphStyle :: "paragraphStyleSchema option"

text \<open>
  The node a path expression selects, an object of the snapshot. The compiler reads two
  properties of it, \<open>startIndex\<close> and \<open>endIndex\<close>; a property the node does not have is
  \<^term>\<open>None\<close>.
\<close>

record targetElement =
  startIndex :: "nat option"
  endIndex :: "nat option"

text \<open>
  \<open>if (x)\<close> on an optional number and on an optional string: \<open>undefined\<close>, \<open>0\<close> and
  the empty string are falsy.
\<close>

definition truthy :: "nat option \<Rightarrow> bool" where
  "truthy x = (case x of None \<Rightarrow> False | Some n \<Rightarrow> n \<noteq> 0)"

definition truthyString :: "string option \<Rightarrow> bool" where
  "truthyString x = (case x of None \<Rightarrow> False | Some s \<Rightarrow> s \<noteq> [])"

section \<open>Errors\<close>

text \<open>
  Each \<open>throw new Error(...)\<close> of the handler is a constructor; \<open>message\<close> is the text the
  source gives it. \<open>UpstreamServiceError\<close> is an error raised by a call to the document
  service.
\<close>

datatype error =
    InvalidDocumentReference
  | FetchFailed
  | TargetNotFound string
  | AmbiguousTarget string
  | MissingRequiredPayload operation
  | TargetNotRangeable operation
  | MissingEndIndex
  | MissingStartIndex
  | UpstreamServiceError string

fun message :: "error \<Rightarrow> string" where
  "message InvalidDocumentReference = ''Invalid document ID or URL''"
| "message FetchFailed = ''Failed to fetch document''"
| "message (TargetNotFound t) = ''No element found at JSONPath: '' @ t"
| "message (AmbiguousTarget t) =
     ''Multiple elements found at JSONPath: '' @ t @ ''. Path must be unique.''"
| "message (MissingRequiredPayload OpUpdateTextStyle) =
     ''updateTextStyle operation requires textStyle to be provided''"
| "message (MissingRequiredPayload OpUpdateParagraphStyle) =
     ''updateParagraphStyle operation requires paragraphStyle to be provided''"
| "message (MissingRequiredPayload OpReplace) =
     ''Replace operation requires content to be provided''"
| "message (MissingRequiredPayload op) =
     operationName op @ '' operation requires content to be provided''"
| "message (TargetNotRangeable op) =
     ''Target element must have startIndex and endIndex for '' @ operationName op @ '' operation''"
| "message MissingEndIndex = ''Target element does not have an endIndex''"
| "message MissingStartIndex = ''Target element does not have a startIndex''"
| "message (UpstreamServiceError m) = m"

section \<open>\<open>extractDocId\<close>\<close>

text \<open>
  The characters of the class \<open>[a-zA-Z0-9-_]\<close>, the first match of
  \<open>/\/document\/d\/([a-zA-Z0-9-_]+)/\<close> in the input (its group 1), and the test
  \<open>/^[a-zA-Z0-9-_]+$/\<close>.
\<close>

definition isIdChar :: "char \<Rightarrow> bool" where
  "isIdChar c =
     (c \<in> set ''abcdefghijklmnopqrstuvwxyzABCDEFGHIJKLMNOPQRSTUVWXYZ0123456789-_'')"

fun urlMatch :: "string \<Rightarrow> string option" where
  "urlMatch [] = None"
| "urlMatch (c # cs) =
     (let rest = drop 12 (c # cs)
      in if take 12 (c # cs) = ''/document/d/'' \<and> takeWhile isIdChar rest \<noteq> []
         then Some (takeWhile isIdChar rest)
         else urlMatch cs)"

definition extractDocId :: "string \<Rightarrow> string option" where
  "extractDocId input =
     (case urlMatch input of
        Some docId \<Rightarrow> Some docId
      | None \<Rightarrow> if input \<noteq> [] \<and> list_all isIdChar input then Some input else None)"

section \<open>The style patches and their field masks\<close>

text \<open>
  The two mutable locals \<open>textStyleUpdate\<close> and \<open>fields\<close> (here \<open>fieldNames\<close>) are threaded through the
  sequence of \<open>if\<close> statements. The first five attributes are tested with
  \<open>!== undefined\<close>, the two colours and the link by truthiness (an object is truthy).
\<close>

definition buildTextStyle :: "textStyleSchema \<Rightarrow> TextStyle \<times> string list" where
  "buildTextStyle ts =
     (let textStyleUpdate = emptyTextStyle;
          fieldNames = [];
          (textStyleUpdate, fieldNames) =
            (case ts_bold ts of
               Some b \<Rightarrow> (textStyleUpdate\<lparr>bold := Some b\<rparr>, fieldNames @ [''bold''])
             | None \<Rightarrow> (textStyleUpdate, fieldNames));
          (textStyleUpdate, fieldNames) =
            (case ts_italic ts of
               Some b \<Rightarrow> (textStyleUpdate\<lparr>italic := Some b\<rparr>, fieldNames @ [''italic''])
             | None \<Rightarrow> (textStyleUpdate, fieldNames));
          (textStyleUpdate, fieldNames) =
            (case ts_underline ts of
               Some b \<Rightarrow> (textStyleUpdate\<lparr>underline := Some b\<rparr>, fieldNames @ [''underline''])
             | None \<Rightarrow> (textStyleUpdate, fieldNames));
          (textStyleUpdate, fieldNames) =
            (case ts_strikethrough ts of
               Some b \<Rightarrow>
                 (textStyleUpdate\<lparr>strikethrough := Some b\<rparr>, fieldNames @ [''strikethrough''])
             | None \<Rightarrow> (textStyleUpdate, fieldNames));
          (textStyleUpdate, fieldNames) =
            (case ts_fontSize ts of
               Some n \<Rightarrow>
                 (textStyleUpdate\<lparr>fontSize := Some \<lparr>magnitude = n, unit = ''PT''\<rparr>\<rparr>,
                  fieldNames @ [''fontSize''])
             | None \<Rightarrow> (textStyleUpdate, fieldNames));
          (textStyleUpdate, fieldNames) =
            (case ts_foregroundColor ts of
               Some c \<Rightarrow>
                 (textStyleUpdate\<lparr>foregroundColor := Some c\<rparr>, fieldNames @ [''foregroundColor''])
             | None \<Rightarrow> (textStyleUpdate, fieldNames));
          (textStyleUpdate, fieldNames) =
            (case ts_backgroundColor ts of
               Some c \<Rightarrow>
                 (textStyleUpdate\<lparr>backgroundColor := Some c\<rparr>, fieldNames @ [''backgroundColor''])
             | None \<Rightarrow> (textStyleUpdate, fieldNames));
          (textStyleUpdate, fieldNames) =
            (case ts_link ts of
               Some u \<Rightarrow> (textStyleUpdate\<lparr>link := Some \<lparr>url = Some u\<rparr>\<rparr>, fieldNames @ [''link''])
             | None \<Rightarrow> (textStyleUpdate, fieldNames))
      in (textStyleUpdate, fieldNames))"

text \<open>
  For the paragraph style, \<open>headingLevel\<close>, \<open>alignment\<close> and \<open>direction\<close> are tested
  by truthiness of the enum's string, the other four with \<open>!== undefined\<close>.
\<close>

definition buildParagraphStyle :: "paragraphStyleSchema \<Rightarrow> ParagraphStyle \<times> string list" where
  "buildParagraphStyle ps =
     (let paragraphStyleUpdate = emptyParagraphStyle;
          fieldNames = [];
          (paragraphStyleUpdate, fieldNames) =
            (if truthyString (map_option headingLevelName (ps_headingLevel ps))
             then (paragraphStyleUpdate
                     \<lparr>namedStyleType := map_option headingLevelName (ps_headingLevel ps)\<rparr>,
                   fieldNames @ [''namedStyleType''])
             else (paragraphStyleUpdate, fieldNames));
          (paragraphStyleUpdate, fieldNames) =
            (if truthyString (map_option alignmentName (ps_alignment ps))
             then (paragraphStyleUpdate
                     \<lparr>alignment := map_option alignmentName (ps_alignment ps)\<rparr>,
                   fieldNames @ [''alignment''])
             else (paragraphStyleUpdate, fieldNames));
          (paragraphStyleUpdate, fieldNames) =
            (case ps_lineSpacing ps of
               Some n \<Rightarrow> (paragraphStyleUpdate\<lparr>lineSpacing := Some n\<rparr>, fieldNames @ [''lineSpacing''])
             | None \<Rightarrow> (paragraphStyleUpdate, fieldNames));
          (paragraphStyleUpdate, fieldNames) =
            (if truthyString (map_option directionName (ps_direction ps))
             then (paragraphStyleUpdate
                     \<lparr>direction := map_option directionName (ps_direction ps)\<rparr>,
                   fieldNames @ [''direction''])
             else (paragraphStyleUpdate, fieldNames));
          (paragraphStyleUpdate, fieldNames) =
            (case ps_indentStart ps of
               Some n \<Rightarrow>
                 (paragraphStyleUpdate\<lparr>indentStart := Some \<lparr>magnitude = n, unit = ''PT''\<rparr>\<rparr>,
                  fieldNames @ [''indentStart''])
             | None \<Rightarrow> (paragraphStyleUpdate, fieldNames));
          (paragraphStyleUpdate, fieldNames) =
            (case ps_indentEnd ps of
               Some n \<Rightarrow>
                 (paragraphStyleUpdate\<lparr>indentEnd := Some \<lparr>magnitude = n, unit = ''PT''\<rparr>\<rparr>,
                  fieldNames @ [''indentEnd''])
             | None \<Rightarrow> (paragraphStyleUpdate, fieldNames));
          (paragraphStyleUpdate, fieldNames) =
            (case ps_indentFirstLine ps of
               Some n \<Rightarrow>
                 (paragraphStyleUpdate\<lparr>indentFirstLine := Some \<lparr>magnitude = n, unit = ''PT''\<rparr>\<rparr>,
                  fieldNames @ [''indentFirstLine''])
             | None \<Rightarrow> (paragraphStyleUpdate, fieldNames))
      in (paragraphStyleUpdate, fieldNames))"

section \<open>Building the requests of one operation\<close>

text \<open>
  The chain \<open>if (operation === ...) ... else ...\<close> of \<open>handleJsonPathOperation\<close>, from
  the resolved \<open>targetElement\<close> to the pair of \<open>requests\<close> and \<open>operationDescription\<close>.
  A \<open>throw\<close> is \<^term>\<open>Inl\<close>.
\<close>

definition buildRequests ::
    "jsonPathOperationSchema \<Rightarrow> targetElement \<Rightarrow> error + request list \<times> string" where
  "buildRequests args targetElement =
     (if operation args = OpUpdateTextStyle then
        (case args_textStyle args of
           None \<Rightarrow> Inl (MissingRequiredPayload OpUpdateTextStyle)
         | Some ts \<Rightarrow>
             if \<not> truthy (startIndex targetElement) \<or> \<not> truthy (endIndex targetElement)
             then Inl (TargetNotRangeable OpUpdateTextStyle)
             else
               (case buildTextStyle ts of
                  (textStyleUpdate, fieldNames) \<Rightarrow>
                    Inr ([UpdateTextStyle (the (startIndex targetElement))
                            (the (endIndex targetElement)) textStyleUpdate (join '','' fieldNames)],
                         ''Updated text style from index ''
                           @ show_nat (the (startIndex targetElement)) @ '' to ''
                           @ show_nat (the (endIndex targetElement)))))
      else if operation args = OpUpdateParagraphStyle then
        (case args_paragraphStyle args of
           None \<Rightarrow> Inl (MissingRequiredPayload OpUpdateParagraphStyle)
         | Some ps \<Rightarrow>
             if \<not> truthy (startIndex targetElement) \<or> \<not> truthy (endIndex targetElement)
             then Inl (TargetNotRangeable OpUpdateParagraphStyle)
             else
               (case buildParagraphStyle ps of
                  (paragraphStyleUpdate, fieldNames) \<Rightarrow>
                    Inr ([UpdateParagraphStyle (the (startIndex targetElement))
                            (the (endIndex targetElement)) paragraphStyleUpdate
                            (join '','' fieldNames)],
                         ''Updated paragraph style from index ''
                           @ show_nat (the (startIndex targetElement)) @ '' to ''
                           @ show_nat (the (endIndex targetElement)))))
      else if operation args = OpDelete then
        (if \<not> truthy (startIndex targetElement) \<or> \<not> truthy (endIndex targetElement)
         then Inl (TargetNotRangeable OpDelete)
         else
           Inr ([DeleteContentRange (the (startIndex targetElement))
                   (the (endIndex targetElement))],
                ''Deleted element from index ''
                  @ show_nat (the (startIndex targetElement)) @ '' to ''
                  @ show_nat (the (endIndex targetElement))))
      else if operation args = OpReplace then
        (case args_content args of
           None \<Rightarrow> Inl (MissingRequiredPayload OpReplace)
         | Some content \<Rightarrow>
             if length content = 0 then Inl (MissingRequiredPayload OpReplace)
             else if \<not> truthy (startIndex targetElement) \<or> \<not> truthy (endIndex targetElement)
             then Inl (TargetNotRangeable OpReplace)
             else
               Inr (DeleteContentRange (the (startIndex targetElement))
                      (the (endIndex targetElement))
                    # generateRequestsFromContent content (the (startIndex targetElement)),
                    ''Replaced element at index ''
                      @ show_nat (the (startIndex targetElement)) @ ''-''
                      @ show_nat (the (endIndex targetElement))))
      else
        (case args_content args of
           None \<Rightarrow> Inl (MissingRequiredPayload (operation args))
         | Some content \<Rightarrow>
             if length content = 0 then Inl (MissingRequiredPayload (operation args))
             else if operation args = OpInsertAfter then
               (if \<not> truthy (endIndex targetElement) then Inl MissingEndIndex
                else
                  Inr (generateRequestsFromContent content (the (endIndex targetElement)),
                       ''Insert index: '' @ show_nat (the (endIndex targetElement))))
             else
               (if \<not> truthy (startIndex targetElement) then Inl MissingStartIndex
                else
                  Inr (generateRequestsFromContent content (the (startIndex targetElement)),
                       ''Insert index: '' @ show_nat (the (startIndex targetElement))))))"

section \<open>\<open>buildUpdateSummary\<close>\<close>

text \<open>One line per request, for the five kinds of request the compiler emits.\<close>

fun describeRequest :: "request \<Rightarrow> string" where
  "describeRequest (InsertText i text) =
     (let preview = (if length text > 50 then take 50 text @ ''...'' else text)
      in ''- Inserted text at index '' @ show_nat i @ '': '' @ [CHR 0x22] @ preview @ [CHR 0x22])"
| "describeRequest (DeleteContentRange s e) =
     ''- Deleted content from index '' @ show_nat s @ '' to '' @ show_nat e"
| "describeRequest (UpdateTextStyle s e st m) =
     ''- Updated text style from index '' @ show_nat s @ '' to '' @ show_nat e"
| "describeRequest (UpdateParagraphStyle s e st m) =
     ''- Updated paragraph style from index '' @ show_nat s @ '' to '' @ show_nat e"
| "describeRequest (CreateParagraphBullets s e preset) =
     ''- Created paragraph bullets from index '' @ show_nat s @ '' to '' @ show_nat e"

definition buildUpdateSummary :: "request list \<Rightarrow> string" where
  "buildUpdateSummary requests =
     (let operations = map describeRequest requests
      in if length operations > 0
         then ''Operations performed:\<newline>'' @ join ''\<newline>'' operations
         else ''No operations described'')"

section \<open>The document service and \<open>handleJsonPathOperation\<close>\<close>

text \<open>
  The handler talks to three collaborators that are not part of the program: the
  path-expression library, the document service and \<open>JSON.stringify\<close>. They are
  parameters of the model.
  \<^item> \<open>jsonPath\<close> is \<open>JSONPath({path, json})\<close>: the list of nodes of the snapshot that the
    expression selects.
  \<^item> \<open>documentsGet\<close> is \<open>documents.get\<close>: from the state of the service and a document
    id, either a rejection (\<^term>\<open>Inl\<close>, with its message) or a response whose \<open>data\<close> may
    be missing.
  \<^item> \<open>documentsBatchUpdate\<close> is \<open>documents.batchUpdate\<close>: either a rejection or the new
    state of the service.
\<close>

record ('st, 'doc) service =
  jsonPath :: "string \<Rightarrow> 'doc \<Rightarrow> targetElement list"
  documentsGet :: "'st \<Rightarrow> string \<Rightarrow> string + 'doc option"
  documentsBatchUpdate :: "'st \<Rightarrow> string \<Rightarrow> request list \<Rightarrow> string + 'st"
  stringify :: "'doc option \<Rightarrow> string"

text \<open>
  The world the handler runs in: the state of the document service, and the log of the
  batches submitted to it (document id and request list), oldest first.
\<close>

record 'st world =
  remote :: 'st
  submitted :: "(string \<times> request list) list"

definition batchUpdate ::
    "('st, 'doc) service \<Rightarrow> 'st world \<Rightarrow> string \<Rightarrow> request list \<Rightarrow> (error + unit) \<times> 'st world" where
  "batchUpdate svc w docId requests =
     (let w' = w\<lparr>submitted := submitted w @ [(docId, requests)]\<rparr>
      in case documentsBatchUpdate svc (remote w) docId requests of
           Inl m \<Rightarrow> (Inl (UpstreamServiceError m), w')
         | Inr st \<Rightarrow> (Inr (), w'\<lparr>remote := st\<rparr>))"

definition handleJsonPathOperation ::
    "('st, 'doc) service \<Rightarrow> 'st world \<Rightarrow> jsonPathOperationSchema \<Rightarrow> (error + string) \<times> 'st world" where
  "handleJsonPathOperation svc w args =
     (case extractDocId (doc_id_or_url args) of
        None \<Rightarrow> (Inl InvalidDocumentReference, w)
      | Some docId \<Rightarrow>
          (case documentsGet svc (remote w) docId of
             Inl m \<Rightarrow> (Inl (UpstreamServiceError m), w)
           | Inr None \<Rightarrow> (Inl FetchFailed, w)
           | Inr (Some doc) \<Rightarrow>
               (let results = jsonPath svc (target args) doc
                in if length results = 0 then (Inl (TargetNotFound (target args)), w)
                   else if length results > 1 then (Inl (AmbiguousTarget (target args)), w)
                   else
                     (let targetElement = results ! 0
                      in case buildRequests args targetElement of
                           Inl e \<Rightarrow> (Inl e, w)
                         | Inr (requests, operationDescription) \<Rightarrow>
                             (case batchUpdate svc w docId requests of
                                (Inl e, w') \<Rightarrow> (Inl e, w')
                              | (Inr u, w') \<Rightarrow>
                                  (let summary = buildUpdateSummary requests
                                   in case documentsGet svc (remote w') docId of
                                        Inl m \<Rightarrow> (Inl (UpstreamServiceError m), w')
                                      | Inr updatedDoc \<Rightarrow>
                                          (Inr (''Document updated successfully using JSONPath targeting.''
                                                @ ''\<newline>\<newline>Target: '' @ target args
                                                @ ''\<newline>Operation: '' @ operationName (operation args)
                                                @ ''\<newline>'' @ operationDescription
                                                @ ''\<newline>\<newline>'' @ summary
                                                @ ''\<newline>\<newline>UPDATED DOCUMENT STRUCTURE (use this for next operations):\<newline>''
                                                @ stringify svc updatedDoc),
                                           w')))))))"

section \<open>The document snapshot read by the Markdown renderer\<close>

record TextRun =
  content :: "string option"
  textStyle :: "TextStyle option"

record ParagraphElement =
  textRun :: "TextRun option"

record Bullet =
  nestingLevel :: "nat option"

record Paragraph =
  elements :: "ParagraphElement list option"
  paragraphStyle :: "ParagraphStyle option"
  bullet :: "Bullet option"

text \<open>
  A structural element holds a paragraph, a table or a section break (its properties
  \<open>paragraph\<close>, \<open>table\<close> and \<open>sectionBreak\<close>); the content of a table cell is again
  a list of structural elements.
\<close>

datatype StructuralElement =
    StructuralElement (elParagraph: "Paragraph option") (elTable: "Table option")
      (elSectionBreak: "unit option")
and Table = Table (tableRows: "TableRow list option")
and TableRow = TableRow (tableCells: "TableCell list option")
and TableCell = TableCell (cellContent: "StructuralElement list option")

record Document =
  bodyContent :: "StructuralElement list option"

section \<open>String operations of the renderer\<close>

text \<open>\<open>x || []\<close> and \<open>x || ""\<close> on an optional array or string.\<close>

definition orEmpty :: "'a list option \<Rightarrow> 'a list" where
  "orEmpty x = (case x of None \<Rightarrow> [] | Some xs \<Rightarrow> xs)"

text \<open>\<open>if (b)\<close> on an optional boolean.\<close>

definition truthyBool :: "bool option \<Rightarrow> bool" where
  "truthyBool x = (case x of None \<Rightarrow> False | Some b \<Rightarrow> b)"

text \<open>\<open>s.includes(sub)\<close>: \<open>sub\<close> occurs in \<open>s\<close>.\<close>

fun includesStr :: "string \<Rightarrow> string \<Rightarrow> bool" where
  "includesStr [] sub = (sub = [])"
| "includesStr (c # cs) sub = (take (length sub) (c # cs) = sub \<or> includesStr cs sub)"

text \<open>
  \<open>s.trim()\<close> removes white space at both ends. Of the white-space characters of the
  source language, those that fit a \<^typ>\<open>char\<close> are tab, line feed, vertical tab, form
  feed, carriage return, space and no-break space.
\<close>

definition isWhiteSpace :: "char \<Rightarrow> bool" where
  "isWhiteSpace c =
     (c \<in> set [CHR 0x09, CHR 0x0A, CHR 0x0B, CHR 0x0C, CHR 0x0D, CHR 0x20, CHR 0xA0])"

definition trim :: "string \<Rightarrow> string" where
  "trim s = rev (dropWhile isWhiteSpace (rev (dropWhile isWhiteSpace s)))"

text \<open>\<open>s.replace(/\n/g, " ")\<close> and \<open>s.replace(/\n+$/, "")\<close>.\<close>

definition replaceNewlines :: "string \<Rightarrow> string" where
  "replaceNewlines s = map (\<lambda>c. if c = CHR ''\<newline>'' then CHR '' '' else c) s"

definition stripTrailingNewlines :: "string \<Rightarrow> string" where
  "stripTrailingNewlines s = rev (dropWhile (\<lambda>c. c = CHR ''\<newline>'') (rev s))"

text \<open>\<open>s.repeat(n)\<close>\<close>

definition repeat :: "string \<Rightarrow> nat \<Rightarrow> string" where
  "repeat s n = concat (replicate n s)"

section \<open>\<open>processTextRun\<close>, \<open>processParagraph\<close>, \<open>processTable\<close>\<close>

definition processTextRun :: "TextRun \<Rightarrow> string" where
  "processTextRun run =
     (let text = orEmpty (content run)
      in case textStyle run of
           None \<Rightarrow> text
         | Some style \<Rightarrow>
             if text = ''\<newline>'' then text
             else
               (let formatted = text;
                    formatted =
                      (if truthyBool (bold style) \<and> truthyBool (italic style)
                       then ''***'' @ formatted @ ''***''
                       else if truthyBool (bold style) then ''**'' @ formatted @ ''**''
                       else if truthyBool (italic style) then ''*'' @ formatted @ ''*''
                       else formatted);
                    formatted =
                      (if truthyBool (underline style) then ''__'' @ formatted @ ''__''
                       else formatted);
                    formatted =
                      (if truthyBool (strikethrough style) then ''~~'' @ formatted @ ''~~''
                       else formatted);
                    formatted =
                      (if truthyString (case link style of None \<Rightarrow> None | Some l \<Rightarrow> url l)
                       then ''['' @ formatted @ '']('' @ the (url (the (link style))) @ '')''
                       else formatted);
                    formatted =
                      (if (case weightedFontFamily style of
                             None \<Rightarrow> False | Some f \<Rightarrow> includesStr f ''Courier'')
                          \<or> (case weightedFontFamily style of
                               None \<Rightarrow> False | Some f \<Rightarrow> includesStr f ''Mono'')
                       then [CHR 0x60] @ formatted @ [CHR 0x60]
                       else formatted)
                in formatted))"

text \<open>
  The text of a paragraph: its text runs rendered and concatenated, without the
  trailing newlines (\<open>trimmedText\<close>).
\<close>

definition paragraphText :: "Paragraph \<Rightarrow> string" where
  "paragraphText p =
     stripTrailingNewlines
       (concat (map (\<lambda>element. case textRun element of
                                  None \<Rightarrow> [] | Some r \<Rightarrow> processTextRun r)
                  (orEmpty (elements p))))"

definition processParagraph :: "Paragraph \<Rightarrow> string" where
  "processParagraph p =
     (let style = (case paragraphStyle p of None \<Rightarrow> None | Some ps \<Rightarrow> namedStyleType ps);
          trimmedText = paragraphText p
      in if trimmedText = [] then ''\<newline>''
         else if style = Some ''HEADING_1'' then ''# '' @ trimmedText @ ''\<newline>\<newline>''
         else if style = Some ''HEADING_2'' then ''## '' @ trimmedText @ ''\<newline>\<newline>''
         else if style = Some ''HEADING_3'' then ''### '' @ trimmedText @ ''\<newline>\<newline>''
         else if style = Some ''HEADING_4'' then ''#### '' @ trimmedText @ ''\<newline>\<newline>''
         else if style = Some ''HEADING_5'' then ''##### '' @ trimmedText @ ''\<newline>\<newline>''
         else if style = Some ''HEADING_6'' then ''###### '' @ trimmedText @ ''\<newline>\<newline>''
         else if style = Some ''TITLE'' then ''# '' @ trimmedText @ ''\<newline>\<newline>''
         else if style = Some ''SUBTITLE'' then ''## '' @ trimmedText @ ''\<newline>\<newline>''
         else
           (case bullet p of
              Some b \<Rightarrow>
                (let level = (case nestingLevel b of None \<Rightarrow> 0 | Some n \<Rightarrow> n);
                     indent = repeat ''  '' level;
                     marker = (if level = 0 then ''1.'' else ''-'')
                 in indent @ marker @ '' '' @ trimmedText @ ''\<newline>'')
            | None \<Rightarrow> trimmedText @ ''\<newline>\<newline>''))"

text \<open>
  The text of one table cell: over the paragraphs directly in the cell, over their
  elements, every text run with a non-empty content appends that content with its
  newlines replaced and then trimmed. The two nested loops append to \<open>cellText\<close>.
\<close>

definition runCellText :: "ParagraphElement \<Rightarrow> string" where
  "runCellText textElement =
     (if truthyString (case textRun textElement of None \<Rightarrow> None | Some r \<Rightarrow> content r)
      then trim (replaceNewlines (the (content (the (textRun textElement)))))
      else [])"

definition elementCellText :: "StructuralElement \<Rightarrow> string" where
  "elementCellText element =
     (case elParagraph element of
        None \<Rightarrow> []
      | Some p \<Rightarrow> concat (map runCellText (orEmpty (elements p))))"

definition cellContentText :: "TableCell \<Rightarrow> string" where
  "cellContentText cell =
     (let cellText = concat (map elementCellText (orEmpty (cellContent cell)))
      in if cellText = [] then '' '' else cellText)"

text \<open>
  The loop over the rows, with the row index \<open>i\<close> and the accumulated \<open>markdown\<close>. The
  rows are the elements of an array read from the snapshot, so none of them is
  \<open>undefined\<close> and the guard \<open>if (!row) continue\<close> never fires.
\<close>

fun tableRowsLoop :: "TableRow list \<Rightarrow> nat \<Rightarrow> string \<Rightarrow> string" where
  "tableRowsLoop [] i markdown = markdown"
| "tableRowsLoop (row # rows) i markdown =
     (let cells = orEmpty (tableCells row);
          cellContents = map cellContentText cells;
          markdown = markdown @ ''| '' @ join '' | '' cellContents @ '' |\<newline>'';
          markdown =
            (if i = 0
             then markdown @ ''| '' @ join '' | '' (map (\<lambda>c. ''---'') cellContents)
                    @ '' |\<newline>''
             else markdown)
      in tableRowsLoop rows (i + 1) markdown)"

definition processTable :: "Table \<Rightarrow> string" where
  "processTable t =
     (let rows = orEmpty (tableRows t)
      in if length rows = 0 then []
         else tableRowsLoop rows 0 ''\<newline>'' @ ''\<newline>'')"

text \<open>
  \<open>convertDocToMarkdown\<close>. The renderer exists twice in the program, with the same
  \<open>processParagraph\<close>, \<open>processTextRun\<close> and \<open>processTable\<close>; in the second copy this
  function is \<open>convertToMarkdown\<close>.
\<close>

definition convertDocToMarkdown :: "Document \<Rightarrow> string" where
  "convertDocToMarkdown doc =
     (case bodyContent doc of
        None \<Rightarrow> []
      | Some elems \<Rightarrow>
          trim (concat (map (\<lambda>element.
                  case elParagraph element of
                    Some p \<Rightarrow> processParagraph p
                  | None \<Rightarrow>
                      (case elTable element of
                         Some t \<Rightarrow> processTable t
                       | None \<Rightarrow>
                           (case elSectionBreak element of
                              Some u \<Rightarrow> ''\<newline>---\<newline>\<newline>''
                            | None \<Rightarrow> []))) elems)))"

section \<open>Notions used to state the properties\<close>

subsection \<open>The cursor of the compiler\<close>

text \<open>
  The texts a content list inserts, in order (every item text with a newline appended),
  and the indices of a run of insertions that starts at \<open>i\<close>: each text is inserted
  where the one before it ends.
\<close>

fun itemTexts :: "contentItem \<Rightarrow> string list" where
  "itemTexts (HeadingItem level str) = [str @ ''\<newline>'']"
| "itemTexts (ParagraphItem str) = [str @ ''\<newline>'']"
| "itemTexts (BulletListItem items) = map (\<lambda>item. item @ ''\<newline>'') items"

definition insertedTexts :: "contentItem list \<Rightarrow> string list" where
  "insertedTexts cs = concat (map itemTexts cs)"

fun runningIndices :: "nat \<Rightarrow> string list \<Rightarrow> nat list" where
  "runningIndices i [] = []"
| "runningIndices i (t # ts) = i # runningIndices (i + length t) ts"

text \<open>
  The insert instructions for a content list anchored at \<open>i\<close>, item by item. A heading
  inserts its text with a newline and then sets the named style \<open>HEADING_\<close>\<open>level\<close> over
  exactly the inserted span; a paragraph only inserts its text with a newline; a bullet
  list, for each item, inserts the item with a newline, resets the named style of the
  inserted span to \<open>NORMAL_TEXT\<close> and creates bullets over the same span. The
  instructions of the next item are anchored where the texts of this one end.
\<close>

fun bulletInstructions :: "string list \<Rightarrow> nat \<Rightarrow> request list" where
  "bulletInstructions [] i = []"
| "bulletInstructions (item # items) i =
     [InsertText i (item @ ''\<newline>''),
      UpdateParagraphStyle i (i + length (item @ ''\<newline>''))
        (emptyParagraphStyle\<lparr>namedStyleType := Some ''NORMAL_TEXT''\<rparr>) ''namedStyleType'',
      CreateParagraphBullets i (i + length (item @ ''\<newline>'')) ''BULLET_DISC_CIRCLE_SQUARE'']
     @ bulletInstructions items (i + length (item @ ''\<newline>''))"

fun itemInstructions :: "contentItem \<Rightarrow> nat \<Rightarrow> request list" where
  "itemInstructions (HeadingItem level str) i =
     [InsertText i (str @ ''\<newline>''),
      UpdateParagraphStyle i (i + length (str @ ''\<newline>''))
        (emptyParagraphStyle\<lparr>namedStyleType := Some (''HEADING_'' @ show_nat level)\<rparr>)
        ''namedStyleType'']"
| "itemInstructions (ParagraphItem str) i = [InsertText i (str @ ''\<newline>'')]"
| "itemInstructions (BulletListItem items) i = bulletInstructions items i"

fun insertInstructions :: "contentItem list \<Rightarrow> nat \<Rightarrow> request list" where
  "insertInstructions [] i = []"
| "insertInstructions (item # items) i =
     itemInstructions item i
     @ insertInstructions items (i + sum_list (map length (itemTexts item)))"

subsection \<open>Validation of an intent\<close>

text \<open>
  The payload an operation requires is missing: the style patch of a restyle, or a
  non-empty content list of a replace or an insert.
\<close>

definition requiredPayloadMissing :: "jsonPathOperationSchema \<Rightarrow> bool" where
  "requiredPayloadMissing args =
     (case operation args of
        OpUpdateTextStyle \<Rightarrow> args_textStyle args = None
      | OpUpdateParagraphStyle \<Rightarrow> args_paragraphStyle args = None
      | OpDelete \<Rightarrow> False
      | OpReplace \<Rightarrow> args_content args = None \<or> args_content args = Some []
      | OpInsertAfter \<Rightarrow> args_content args = None \<or> args_content args = Some []
      | OpInsertBefore \<Rightarrow> args_content args = None \<or> args_content args = Some [])"

text \<open>
  The target lacks an index its operation requires: the end index for \<open>insertAfter\<close>,
  the start index for \<open>insertBefore\<close>, both for the other operations. An index that is
  absent lacks, and so does an index that is zero.
\<close>

definition lacksRequiredIndices :: "operation \<Rightarrow> targetElement \<Rightarrow> bool" where
  "lacksRequiredIndices op t =
     (case op of
        OpInsertAfter \<Rightarrow> \<not> truthy (endIndex t)
      | OpInsertBefore \<Rightarrow> \<not> truthy (startIndex t)
      | _ \<Rightarrow> \<not> (truthy (startIndex t) \<and> truthy (endIndex t)))"

text \<open>
  An intent fails validation when its document reference cannot be parsed, when its
  required payload is missing, or when, on the fetched snapshot, its path expression
  does not select exactly one node or selects a node that lacks a required index.
\<close>

definition failsValidation ::
    "('st, 'doc) service \<Rightarrow> 'st world \<Rightarrow> jsonPathOperationSchema \<Rightarrow> bool" where
  "failsValidation svc w args =
     (case extractDocId (doc_id_or_url args) of
        None \<Rightarrow> True
      | Some docId \<Rightarrow>
          requiredPayloadMissing args \<or>
          (case documentsGet svc (remote w) docId of
             Inr (Some doc) \<Rightarrow>
               (case jsonPath svc (target args) doc of
                  [t] \<Rightarrow> lacksRequiredIndices (operation args) t
                | _ \<Rightarrow> True)
           | _ \<Rightarrow> False))"

text \<open>The anchor of an insert: the end index of the target for \<open>insertAfter\<close>, its start
  index for \<open>insertBefore\<close>.\<close>

definition anchorIndex :: "operation \<Rightarrow> targetElement \<Rightarrow> nat option" where
  "anchorIndex op t = (if op = OpInsertAfter then endIndex t else startIndex t)"

text \<open>The error for a target whose start index is falsy, by operation.\<close>

definition startIndexError :: "operation \<Rightarrow> error" where
  "startIndexError op = (if op = OpInsertBefore then MissingStartIndex else TargetNotRangeable op)"

subsection \<open>The field mask and the payload of a style patch\<close>

text \<open>
  The names of the attributes present in a patch, in the order of the source, under the
  name the document service has for each (\<open>headingLevel\<close> is its \<open>namedStyleType\<close>);
  and the payload that carries exactly the values present, font size and indents in
  points.
\<close>

definition textStyleMask :: "textStyleSchema \<Rightarrow> string list" where
  "textStyleMask ts =
     (if ts_bold ts \<noteq> None then [''bold''] else [])
     @ (if ts_italic ts \<noteq> None then [''italic''] else [])
     @ (if ts_underline ts \<noteq> None then [''underline''] else [])
     @ (if ts_strikethrough ts \<noteq> None then [''strikethrough''] else [])
     @ (if ts_fontSize ts \<noteq> None then [''fontSize''] else [])
     @ (if ts_foregroundColor ts \<noteq> None then [''foregroundColor''] else [])
     @ (if ts_backgroundColor ts \<noteq> None then [''backgroundColor''] else [])
     @ (if ts_link ts \<noteq> None then [''link''] else [])"

definition paragraphStyleMask :: "paragraphStyleSchema \<Rightarrow> string list" where
  "paragraphStyleMask ps =
     (if ps_headingLevel ps \<noteq> None then [''namedStyleType''] else [])
     @ (if ps_alignment ps \<noteq> None then [''alignment''] else [])
     @ (if ps_lineSpacing ps \<noteq> None then [''lineSpacing''] else [])
     @ (if ps_direction ps \<noteq> None then [''direction''] else [])
     @ (if ps_indentStart ps \<noteq> None then [''indentStart''] else [])
     @ (if ps_indentEnd ps \<noteq> None then [''indentEnd''] else [])
     @ (if ps_indentFirstLine ps \<noteq> None then [''indentFirstLine''] else [])"

definition points :: "number \<Rightarrow> Dimension" where
  "points n = \<lparr>magnitude = n, unit = ''PT''\<rparr>"

definition textStylePayload :: "textStyleSchema \<Rightarrow> TextStyle" where
  "textStylePayload ts =
     \<lparr>bold = ts_bold ts, italic = ts_italic ts, underline = ts_underline ts,
      strikethrough = ts_strikethrough ts, fontSize = map_option points (ts_fontSize ts),
      foregroundColor = ts_foregroundColor ts, backgroundColor = ts_backgroundColor ts,
      link = map_option (\<lambda>u. \<lparr>url = Some u\<rparr>) (ts_link ts), weightedFontFamily = None\<rparr>"

definition paragraphStylePayload :: "paragraphStyleSchema \<Rightarrow> ParagraphStyle" where
  "paragraphStylePayload ps =
     \<lparr>namedStyleType = map_option headingLevelName (ps_headingLevel ps),
      alignment = map_option alignmentName (ps_alignment ps),
      lineSpacing = ps_lineSpacing ps,
      direction = map_option directionName (ps_direction ps),
      indentStart = map_option points (ps_indentStart ps),
      indentEnd = map_option points (ps_indentEnd ps),
      indentFirstLine = map_option points (ps_indentFirstLine ps)\<rparr>"

subsection \<open>The markers of the style composer\<close>

text \<open>
  The text of a run and its style flags; a run without a style record has no flag set.
  A run has a link when its style has a link with a non-empty url, and is monospace when
  its font family contains \<open>Courier\<close> or \<open>Mono\<close>.
\<close>

definition runText :: "TextRun \<Rightarrow> string" where
  "runText r = orEmpty (content r)"

definition runStyle :: "TextRun \<Rightarrow> TextStyle" where
  "runStyle r = (case textStyle r of None \<Rightarrow> emptyTextStyle | Some st \<Rightarrow> st)"

definition linkUrl :: "TextRun \<Rightarrow> string" where
  "linkUrl r = (case link (runStyle r) of None \<Rightarrow> [] | Some l \<Rightarrow> orEmpty (url l))"

definition isMonospace :: "TextRun \<Rightarrow> bool" where
  "isMonospace r =
     (case weightedFontFamily (runStyle r) of
        None \<Rightarrow> False
      | Some f \<Rightarrow> includesStr f ''Courier'' \<or> includesStr f ''Mono'')"

definition emphasisMark :: "TextRun \<Rightarrow> string" where
  "emphasisMark r =
     (if truthyBool (bold (runStyle r)) \<and> truthyBool (italic (runStyle r)) then ''***''
      else if truthyBool (bold (runStyle r)) then ''**''
      else if truthyBool (italic (runStyle r)) then ''*''
      else [])"

definition underlineMark :: "TextRun \<Rightarrow> string" where
  "underlineMark r = (if truthyBool (underline (runStyle r)) then ''__'' else [])"

definition strikeMark :: "TextRun \<Rightarrow> string" where
  "strikeMark r = (if truthyBool (strikethrough (runStyle r)) then ''~~'' else [])"

definition linkOpen :: "TextRun \<Rightarrow> string" where
  "linkOpen r = (if linkUrl r = [] then [] else ''['')"

definition linkClose :: "TextRun \<Rightarrow> string" where
  "linkClose r = (if linkUrl r = [] then [] else '']('' @ linkUrl r @ '')'')"

definition codeMark :: "TextRun \<Rightarrow> string" where
  "codeMark r = (if isMonospace r then [CHR 0x60] else [])"

subsection \<open>The Markdown of a table\<close>

text \<open>
  The contents of the text runs of a cell: of the paragraphs directly in the cell, in
  order (the runs of a table nested in the cell are not among them).
\<close>

definition elementRuns :: "ParagraphElement \<Rightarrow> string list" where
  "elementRuns e =
     (case textRun e of
        None \<Rightarrow> []
      | Some r \<Rightarrow> (case content r of None \<Rightarrow> [] | Some c \<Rightarrow> [c]))"

definition cellRuns :: "TableCell \<Rightarrow> string list" where
  "cellRuns cell =
     concat (map (\<lambda>el. case elParagraph el of
                          None \<Rightarrow> []
                        | Some p \<Rightarrow> concat (map elementRuns (orEmpty (elements p))))
               (orEmpty (cellContent cell)))"

text \<open>
  Two readings of the text of a cell. \<open>cellTextPerRun\<close>: every run has its newlines
  replaced by spaces and is trimmed, and the results are concatenated.
  \<open>cellTextWhole\<close>: the runs are concatenated, and the concatenation has its newlines
  replaced by spaces and is trimmed. In both, an empty text becomes a single space.
\<close>

definition cellTextPerRun :: "TableCell \<Rightarrow> string" where
  "cellTextPerRun cell =
     (let t = concat (map (\<lambda>c. trim (replaceNewlines c)) (cellRuns cell))
      in if t = [] then '' '' else t)"

definition cellTextWhole :: "TableCell \<Rightarrow> string" where
  "cellTextWhole cell =
     (let t = trim (replaceNewlines (concat (cellRuns cell)))
      in if t = [] then '' '' else t)"

text \<open>
  The Markdown of a table for a given cell text: one pipe-delimited line per row, and
  after the line of the first row a separator line with one \<open>---\<close> per cell of that row.
\<close>

definition rowLine :: "(TableCell \<Rightarrow> string) \<Rightarrow> TableRow \<Rightarrow> string" where
  "rowLine cellText row =
     ''| '' @ join '' | '' (map cellText (orEmpty (tableCells row))) @ '' |\<newline>''"

definition separatorLine :: "TableRow \<Rightarrow> string" where
  "separatorLine row =
     ''| '' @ join '' | '' (replicate (length (orEmpty (tableCells row))) ''---'')
       @ '' |\<newline>''"

definition tableMarkdown :: "(TableCell \<Rightarrow> string) \<Rightarrow> Table \<Rightarrow> string" where
  "tableMarkdown cellText t =
     (case orEmpty (tableRows t) of
        [] \<Rightarrow> []
      | first # rest \<Rightarrow>
          ''\<newline>'' @ rowLine cellText first @ separatorLine first
            @ concat (map (rowLine cellText) rest) @ ''\<newline>'')"

subsection \<open>The prefix of a named style\<close>

definition headingPrefixes :: "(string \<times> string) list" where
  "headingPrefixes =
     [(''HEADING_1'', ''# ''), (''HEADING_2'', ''## ''), (''HEADING_3'', ''### ''),
      (''HEADING_4'', ''#### ''), (''HEADING_5'', ''##### ''), (''HEADING_6'', ''###### ''),
      (''TITLE'', ''# ''), (''SUBTITLE'', ''## '')]"

definition namedStyleOf :: "Paragraph \<Rightarrow> string option" where
  "namedStyleOf p = (case paragraphStyle p of None \<Rightarrow> None | Some ps \<Rightarrow> namedStyleType ps)"

section \<open>Example inputs\<close>

text \<open>
  A document service holding one document \<open>doc1\<close>, whose state counts the batches it
  has applied. Three path expressions select nodes of its snapshot: one a paragraph
  spanning 20 to 30, one the first structural element with a start index of zero, one
  two nodes at once.
\<close>

definition exampleService :: "(nat, unit) service" where
  "exampleService =
     \<lparr>jsonPath = (\<lambda>path doc.
         if path = ''$.body.content[2]'' then [\<lparr>startIndex = Some 20, endIndex = Some 30\<rparr>]
         else if path = ''$.body.content[0]'' then [\<lparr>startIndex = Some 0, endIndex = Some 1\<rparr>]
         else if path = ''$.body.content[*]''
           then [\<lparr>startIndex = Some 0, endIndex = Some 1\<rparr>,
                 \<lparr>startIndex = Some 1, endIndex = Some 20\<rparr>]
         else []),
      documentsGet = (\<lambda>st docId.
         if docId = ''doc1'' then Inr (Some ()) else Inl ''Requested entity was not found.''),
      documentsBatchUpdate = (\<lambda>st docId requests. Inr (st + 1)),
      stringify = (\<lambda>doc. ''{}'')\<rparr>"

definition exampleWorld :: "nat world" where
  "exampleWorld = \<lparr>remote = 0, submitted = []\<rparr>"

definition exampleArgs ::
    "operation \<Rightarrow> string \<Rightarrow> contentItem list option \<Rightarrow> jsonPathOperationSchema" where
  "exampleArgs op path c =
     \<lparr>doc_id_or_url = ''doc1'', operation = op, target = path, args_content = c,
      args_textStyle = None, args_paragraphStyle = None\<rparr>"

definition emptyTextPatch :: textStyleSchema where
  "emptyTextPatch =
     \<lparr>ts_bold = None, ts_italic = None, ts_underline = None, ts_strikethrough = None,
      ts_fontSize = None, ts_foregroundColor = None, ts_backgroundColor = None,
      ts_link = None\<rparr>"

definition emptyParagraphPatch :: paragraphStyleSchema where
  "emptyParagraphPatch =
     \<lparr>ps_headingLevel = None, ps_alignment = None, ps_lineSpacing = None,
      ps_direction = None, ps_indentStart = None, ps_indentEnd = None,
      ps_indentFirstLine = None\<rparr>"

text \<open>A text run with a style, a paragraph of runs, and a table cell of one paragraph.\<close>

definition exampleRun :: "string \<Rightarrow> TextStyle \<Rightarrow> ParagraphElement" where
  "exampleRun s st = \<lparr>textRun = Some \<lparr>content = Some s, textStyle = Some st\<rparr>\<rparr>"

definition exampleParagraph ::
    "string option \<Rightarrow> Bullet option \<Rightarrow> ParagraphElement list \<Rightarrow> Paragraph" where
  "exampleParagraph sty b es =
     \<lparr>elements = Some es,
      paragraphStyle = Some (emptyParagraphStyle\<lparr>namedStyleType := sty\<rparr>),
      bullet = b\<rparr>"

definition exampleCell :: "ParagraphElement list \<Rightarrow> TableCell" where
  "exampleCell es =
     TableCell (Some [StructuralElement (Some (exampleParagraph None None es)) None None])"

text \<open>
  A table of one row and one cell, whose paragraph has the two runs \<open>"Hello "\<close> and
  \<open>"world\n"\<close>.
\<close>

definition exampleTable :: Table where
  "exampleTable =
     Table (Some [TableRow (Some [exampleCell
       [exampleRun ''Hello '' emptyTextStyle, exampleRun ''world\<newline>'' emptyTextStyle]])])"

section \<open>Cursor arithmetic of the instruction compiler\<close>

text \<open>
  For every content list and anchor, the insertion points are the running indices of
  the inserted texts from the anchor, and the cursor ends at the anchor plus the total
  length inserted.
\<close>

lemma insertionPoints_append:
  "insertionPoints (xs @ ys) = insertionPoints xs @ insertionPoints ys"
  by (induction xs rule: insertionPoints.induct) simp_all

lemma runningIndices_append:
  "runningIndices i (xs @ ys) = runningIndices i xs @ runningIndices (i + sum_list (map length xs)) ys"
  by (induction xs arbitrary: i) (simp_all add: add.assoc)

lemma bulletItemsLoop_cursor:
  "\<exists>added. bulletItemsLoop items requests i =
       (requests @ added, i + sum_list (map length (map (\<lambda>item. item @ ''\<newline>'') items)))
     \<and> insertionPoints added = runningIndices i (map (\<lambda>item. item @ ''\<newline>'') items)"
proof (induction items arbitrary: requests i)
  case Nil
  show ?case by simp
next
  case (Cons item items)
  obtain added where a: "bulletItemsLoop items
       (requests @
         [InsertText i (item @ ''\<newline>''),
          UpdateParagraphStyle i (i + length (item @ ''\<newline>''))
            (emptyParagraphStyle\<lparr>namedStyleType := Some ''NORMAL_TEXT''\<rparr>) ''namedStyleType'',
          CreateParagraphBullets i (i + length (item @ ''\<newline>'')) ''BULLET_DISC_CIRCLE_SQUARE''])
       (i + length (item @ ''\<newline>'')) =
       ((requests @
         [InsertText i (item @ ''\<newline>''),
          UpdateParagraphStyle i (i + length (item @ ''\<newline>''))
            (emptyParagraphStyle\<lparr>namedStyleType := Some ''NORMAL_TEXT''\<rparr>) ''namedStyleType'',
          CreateParagraphBullets i (i + length (item @ ''\<newline>'')) ''BULLET_DISC_CIRCLE_SQUARE''])
          @ added,
        (i + length (item @ ''\<newline>''))
          + sum_list (map length (map (\<lambda>item. item @ ''\<newline>'') items)))"
    and b: "insertionPoints added =
       runningIndices (i + length (item @ ''\<newline>'')) (map (\<lambda>item. item @ ''\<newline>'') items)"
    using Cons.IH by blast
  show ?case
    using a b
    by (intro exI [of _ "[InsertText i (item @ ''\<newline>''),
          UpdateParagraphStyle i (i + length (item @ ''\<newline>''))
            (emptyParagraphStyle\<lparr>namedStyleType := Some ''NORMAL_TEXT''\<rparr>) ''namedStyleType'',
          CreateParagraphBullets i (i + length (item @ ''\<newline>'')) ''BULLET_DISC_CIRCLE_SQUARE'']
          @ added"]) (simp add: Let_def)
qed

lemma contentLoop_cursor:
  "\<exists>added. contentLoop cs requests i =
       (requests @ added, i + sum_list (map length (insertedTexts cs)))
     \<and> insertionPoints added = runningIndices i (insertedTexts cs)"
proof (induction cs arbitrary: requests i)
  case Nil
  show ?case by (simp add: insertedTexts_def)
next
  case (Cons item cs)
  show ?case
  proof (cases item)
    case (HeadingItem level str)
    let ?new = "[InsertText i (str @ ''\<newline>''),
        UpdateParagraphStyle i (i + length (str @ ''\<newline>''))
          (emptyParagraphStyle\<lparr>namedStyleType := Some (''HEADING_'' @ show_nat level)\<rparr>)
          ''namedStyleType'']"
    obtain added where a: "contentLoop cs (requests @ ?new) (i + length (str @ ''\<newline>'')) =
        ((requests @ ?new) @ added,
         (i + length (str @ ''\<newline>'')) + sum_list (map length (insertedTexts cs)))"
      and b: "insertionPoints added =
         runningIndices (i + length (str @ ''\<newline>'')) (insertedTexts cs)"
      using Cons.IH by blast
    show ?thesis
      using a b HeadingItem
      by (intro exI [of _ "?new @ added"]) (simp add: Let_def insertedTexts_def)
  next
    case (ParagraphItem str)
    let ?new = "[InsertText i (str @ ''\<newline>'')]"
    obtain added where a: "contentLoop cs (requests @ ?new) (i + length (str @ ''\<newline>'')) =
        ((requests @ ?new) @ added,
         (i + length (str @ ''\<newline>'')) + sum_list (map length (insertedTexts cs)))"
      and b: "insertionPoints added =
         runningIndices (i + length (str @ ''\<newline>'')) (insertedTexts cs)"
      using Cons.IH by blast
    show ?thesis
      using a b ParagraphItem
      by (intro exI [of _ "?new @ added"]) (simp add: Let_def insertedTexts_def)
  next
    case (BulletListItem items)
    let ?texts = "map (\<lambda>item. item @ ''\<newline>'') items"
    obtain bullets where c: "bulletItemsLoop items requests i =
         (requests @ bullets, i + sum_list (map length ?texts))"
      and d: "insertionPoints bullets = runningIndices i ?texts"
      using bulletItemsLoop_cursor [of items requests i] by blast
    obtain added where a: "contentLoop cs (requests @ bullets)
          (i + sum_list (map length ?texts)) =
        ((requests @ bullets) @ added,
         (i + sum_list (map length ?texts)) + sum_list (map length (insertedTexts cs)))"
      and b: "insertionPoints added =
         runningIndices (i + sum_list (map length ?texts)) (insertedTexts cs)"
      using Cons.IH by blast
    show ?thesis
      using a b c d BulletListItem
      by (intro exI [of _ "bullets @ added"])
        (simp add: insertedTexts_def insertionPoints_append runningIndices_append)
  qed
qed

lemma insertionPoints_generate:
  "insertionPoints (generateRequestsFromContent cs anchor) =
     runningIndices anchor (insertedTexts cs)"
  using contentLoop_cursor [of cs "[]" anchor]
  by (auto simp: generateRequestsFromContent_def)

lemma final_cursor:
  "snd (contentLoop cs [] anchor) =
     anchor + sum_list (map length (insertedTexts cs))"
  using contentLoop_cursor [of cs "[]" anchor] by auto

text \<open>
  The two loops of the compiler emit exactly the insert instructions of the content
  list, appended to the requests already there.
\<close>

lemma bulletItemsLoop_instructions:
  "bulletItemsLoop items requests i =
     (requests @ bulletInstructions items i,
      i + sum_list (map length (map (\<lambda>item. item @ ''\<newline>'') items)))"
  by (induction items arbitrary: requests i) (simp_all add: Let_def)

lemma contentLoop_instructions:
  "contentLoop cs requests i =
     (requests @ insertInstructions cs i, i + sum_list (map length (insertedTexts cs)))"
proof (induction cs arbitrary: requests i)
  case Nil
  show ?case by (simp add: insertedTexts_def)
next
  case (Cons item cs)
  show ?case
  proof (cases item)
    case (HeadingItem level str)
    then show ?thesis by (simp add: Let_def Cons.IH insertedTexts_def)
  next
    case (ParagraphItem str)
    then show ?thesis by (simp add: Let_def Cons.IH insertedTexts_def)
  next
    case (BulletListItem items)
    then show ?thesis
      by (simp add: bulletItemsLoop_instructions Cons.IH insertedTexts_def)
  qed
qed

lemma generate_insertInstructions:
  "generateRequestsFromContent cs anchor = insertInstructions cs anchor"
  by (simp add: generateRequestsFromContent_def contentLoop_instructions)

lemma show_nat_2: "show_nat 2 = ''2''"
  by (simp add: show_nat.simps digit_char_def)

text \<open>
  Claim C1, as the code has it. Compiling the content list
  \<open>[heading(level=2,"H"), paragraph("P"), bulletList(["A","B"])]\<close> at anchor index 10
  emits four \<open>insertText\<close> requests, one per inserted text, at the insertion points
  10, 12, 14, 16 in that order; each inserted text is the item text plus a newline and
  advances the cursor by 2, so the cursor ends at 18, where nothing is inserted. The
  heading's paragraph-style request spans the half-open range from 10 to 12 with named
  style \<open>HEADING_2\<close>.
\<close>

theorem cursor_example:
  "generateRequestsFromContent
     [HeadingItem 2 ''H'', ParagraphItem ''P'', BulletListItem [''A'', ''B'']] 10 =
     [InsertText 10 ''H\<newline>'',
      UpdateParagraphStyle 10 12
        (emptyParagraphStyle\<lparr>namedStyleType := Some ''HEADING_2''\<rparr>) ''namedStyleType'',
      InsertText 12 ''P\<newline>'',
      InsertText 14 ''A\<newline>'',
      UpdateParagraphStyle 14 16
        (emptyParagraphStyle\<lparr>namedStyleType := Some ''NORMAL_TEXT''\<rparr>) ''namedStyleType'',
      CreateParagraphBullets 14 16 ''BULLET_DISC_CIRCLE_SQUARE'',
      InsertText 16 ''B\<newline>'',
      UpdateParagraphStyle 16 18
        (emptyParagraphStyle\<lparr>namedStyleType := Some ''NORMAL_TEXT''\<rparr>) ''namedStyleType'',
      CreateParagraphBullets 16 18 ''BULLET_DISC_CIRCLE_SQUARE'']
   \<and> insertionPoints
       (generateRequestsFromContent
          [HeadingItem 2 ''H'', ParagraphItem ''P'', BulletListItem [''A'', ''B'']] 10) =
       [10, 12, 14, 16]
   \<and> snd (contentLoop
            [HeadingItem 2 ''H'', ParagraphItem ''P'', BulletListItem [''A'', ''B'']] [] 10) = 18"
  by (simp add: generateRequestsFromContent_def show_nat_2)

text \<open>
  The list of insertion points that claim C1 states, with a fifth point 18, is not the
  list the compiler emits.
\<close>

theorem five_insertion_points_counterexample:
  "insertionPoints
     (generateRequestsFromContent
        [HeadingItem 2 ''H'', ParagraphItem ''P'', BulletListItem [''A'', ''B'']] 10)
   \<noteq> [10, 12, 14, 16, 18]"
  by (simp add: generateRequestsFromContent_def)

section \<open>The locator and the handler\<close>

lemma extractDocId_doc1: "extractDocId ''doc1'' = Some ''doc1''"
  by (simp add: extractDocId_def isIdChar_def)

lemma handle_resolved:
  assumes "extractDocId (doc_id_or_url args) = Some docId"
    and "documentsGet svc (remote w) docId = Inr (Some doc)"
    and "jsonPath svc (target args) doc = [t]"
  shows "handleJsonPathOperation svc w args =
     (case buildRequests args t of
        Inl e \<Rightarrow> (Inl e, w)
      | Inr (requests, operationDescription) \<Rightarrow>
          (case batchUpdate svc w docId requests of
             (Inl e, w') \<Rightarrow> (Inl e, w')
           | (Inr u, w') \<Rightarrow>
               (case documentsGet svc (remote w') docId of
                  Inl m \<Rightarrow> (Inl (UpstreamServiceError m), w')
                | Inr updatedDoc \<Rightarrow>
                    (Inr (''Document updated successfully using JSONPath targeting.''
                          @ ''\<newline>\<newline>Target: '' @ target args
                          @ ''\<newline>Operation: '' @ operationName (operation args)
                          @ ''\<newline>'' @ operationDescription
                          @ ''\<newline>\<newline>'' @ buildUpdateSummary requests
                          @ ''\<newline>\<newline>UPDATED DOCUMENT STRUCTURE (use this for next operations):\<newline>''
                          @ stringify svc updatedDoc),
                     w'))))"
  using assms by (simp add: handleJsonPathOperation_def Let_def split: sum.split prod.split)

lemma batchUpdate_submitted:
  "submitted (snd (batchUpdate svc w docId requests)) = submitted w @ [(docId, requests)]"
  by (simp add: batchUpdate_def Let_def split: sum.split)

lemma handle_build_error:
  assumes "extractDocId (doc_id_or_url args) = Some docId"
    and "documentsGet svc (remote w) docId = Inr (Some doc)"
    and "jsonPath svc (target args) doc = [t]"
    and "buildRequests args t = Inl e"
  shows "handleJsonPathOperation svc w args = (Inl e, w)"
  using assms by (simp add: handle_resolved)

lemma handle_build_submits:
  assumes "extractDocId (doc_id_or_url args) = Some docId"
    and "documentsGet svc (remote w) docId = Inr (Some doc)"
    and "jsonPath svc (target args) doc = [t]"
    and "buildRequests args t = Inr (requests, d)"
  shows "submitted (snd (handleJsonPathOperation svc w args)) = submitted w @ [(docId, requests)]"
proof -
  obtain r w' where bu: "batchUpdate svc w docId requests = (r, w')"
    by (cases "batchUpdate svc w docId requests")
  then have "submitted w' = submitted w @ [(docId, requests)]"
    using batchUpdate_submitted [of svc w docId requests] by simp
  then show ?thesis
    using assms bu by (simp add: handle_resolved split: sum.split)
qed

lemma handle_unresolved:
  assumes "extractDocId (doc_id_or_url args) = Some docId"
    and "documentsGet svc (remote w) docId = Inr (Some doc)"
    and "length (jsonPath svc (target args) doc) \<noteq> 1"
  shows "handleJsonPathOperation svc w args =
     (Inl (if length (jsonPath svc (target args) doc) = 0 then TargetNotFound (target args)
           else AmbiguousTarget (target args)), w)"
proof (cases "length (jsonPath svc (target args) doc) = 0")
  case True
  then show ?thesis
    using assms(1,2) by (simp add: handleJsonPathOperation_def)
next
  case False
  with assms(3) have "length (jsonPath svc (target args) doc) > 1" by arith
  with False show ?thesis
    using assms(1,2) by (simp add: handleJsonPathOperation_def Let_def)
qed

text \<open>
  Claim C2. On a fetched snapshot, a path expression that selects no node fails with
  \<open>TargetNotFound\<close> and one that selects more than one node fails with
  \<open>AmbiguousTarget\<close>, in both cases before anything is submitted. A batch reaches the
  document service, and the handler succeeds, only when exactly one node is selected.
\<close>

theorem locator_uniqueness:
  assumes "extractDocId (doc_id_or_url args) = Some docId"
    and "documentsGet svc (remote w) docId = Inr (Some doc)"
  shows "(length (jsonPath svc (target args) doc) = 0 \<longrightarrow>
            handleJsonPathOperation svc w args = (Inl (TargetNotFound (target args)), w))
       \<and> (length (jsonPath svc (target args) doc) > 1 \<longrightarrow>
            handleJsonPathOperation svc w args = (Inl (AmbiguousTarget (target args)), w))
       \<and> (submitted (snd (handleJsonPathOperation svc w args)) \<noteq> submitted w \<longrightarrow>
            length (jsonPath svc (target args) doc) = 1)
       \<and> (isl (fst (handleJsonPathOperation svc w args)) \<or>
            length (jsonPath svc (target args) doc) = 1)"
proof (cases "length (jsonPath svc (target args) doc) = 1")
  case True
  then show ?thesis by simp
next
  case False
  have "handleJsonPathOperation svc w args =
     (Inl (if length (jsonPath svc (target args) doc) = 0 then TargetNotFound (target args)
           else AmbiguousTarget (target args)), w)"
    using assms False by (rule handle_unresolved)
  with False show ?thesis by simp
qed

theorem locator_uniqueness_witness:
  "handleJsonPathOperation exampleService exampleWorld
     (exampleArgs OpDelete ''$.body.content[*]'' None) =
     (Inl (AmbiguousTarget ''$.body.content[*]''), exampleWorld)
   \<and> handleJsonPathOperation exampleService exampleWorld
     (exampleArgs OpDelete ''$.body.content[7]'' None) =
     (Inl (TargetNotFound ''$.body.content[7]''), exampleWorld)"
  using locator_uniqueness [of "exampleArgs OpDelete ''$.body.content[*]'' None" "''doc1''" exampleService exampleWorld "()"]
    locator_uniqueness [of "exampleArgs OpDelete ''$.body.content[7]'' None" "''doc1''" exampleService exampleWorld "()"]
  by (simp add: exampleArgs_def exampleService_def exampleWorld_def extractDocId_doc1)

section \<open>Compilation and validation of an intent\<close>

lemma truthy_Some: "truthy (Some n) = (n \<noteq> 0)"
  by (simp add: truthy_def)

lemma truthy_None: "truthy None = False"
  by (simp add: truthy_def)

lemma buildRequests_replace:
  assumes "operation args = OpReplace" and "args_content args = Some c" and "c \<noteq> []"
    and "startIndex t = Some s" and "endIndex t = Some e" and "0 < s" and "0 < e"
  shows "buildRequests args t =
     Inr (DeleteContentRange s e # insertInstructions c s,
          ''Replaced element at index '' @ show_nat s @ ''-'' @ show_nat e)"
  using assms by (simp add: buildRequests_def truthy_Some generate_insertInstructions)

text \<open>
  Claim C3. For a replace intent whose uniquely resolved target carries the start index
  \<open>s\<close> and the end index \<open>e\<close> (both positive, as the indices of the 1-based index
  space are) and whose content is non-empty, the compiled request list is exactly one
  \<open>deleteContentRange\<close> from \<open>s\<close> to \<open>e\<close> followed by the insert instructions for the
  content anchored at \<open>s\<close> (\<open>insertInstructions\<close>: per item, the texts, styles and
  bullets at their running indices), and that list is the batch submitted. The witness
  is the replace of the range from 20 to 30 by the paragraph \<open>X\<close>, and by a heading
  followed by a bullet list.
\<close>

theorem replace_decomposition:
  assumes "extractDocId (doc_id_or_url args) = Some docId"
    and "documentsGet svc (remote w) docId = Inr (Some doc)"
    and "jsonPath svc (target args) doc = [t]"
    and "operation args = OpReplace" and "args_content args = Some c" and "c \<noteq> []"
    and "startIndex t = Some s" and "endIndex t = Some e" and "0 < s" and "0 < e"
  shows "buildRequests args t =
           Inr (DeleteContentRange s e # insertInstructions c s,
                ''Replaced element at index '' @ show_nat s @ ''-'' @ show_nat e)
       \<and> submitted (snd (handleJsonPathOperation svc w args)) =
           submitted w @ [(docId, DeleteContentRange s e # insertInstructions c s)]"
proof -
  have b: "buildRequests args t =
     Inr (DeleteContentRange s e # insertInstructions c s,
          ''Replaced element at index '' @ show_nat s @ ''-'' @ show_nat e)"
    using assms(4-10) by (rule buildRequests_replace)
  have "submitted (snd (handleJsonPathOperation svc w args)) =
           submitted w @ [(docId, DeleteContentRange s e # insertInstructions c s)]"
    using assms(1-3) b by (rule handle_build_submits)
  with b show ?thesis by simp
qed

theorem replace_decomposition_witness:
  "fst (projr (buildRequests (exampleArgs OpReplace ''$.body.content[2]'' (Some [ParagraphItem ''X'']))
      \<lparr>startIndex = Some 20, endIndex = Some 30\<rparr>)) =
     [DeleteContentRange 20 30, InsertText 20 ''X\<newline>'']
   \<and> submitted (snd (handleJsonPathOperation exampleService exampleWorld
     (exampleArgs OpReplace ''$.body.content[2]'' (Some [ParagraphItem ''X''])))) =
   [(''doc1'', [DeleteContentRange 20 30, InsertText 20 ''X\<newline>''])]
   \<and> submitted (snd (handleJsonPathOperation exampleService exampleWorld
     (exampleArgs OpReplace ''$.body.content[2]''
        (Some [HeadingItem 2 ''H'', BulletListItem [''A'', ''B'']])))) =
   [(''doc1'',
     [DeleteContentRange 20 30,
      InsertText 20 ''H\<newline>'',
      UpdateParagraphStyle 20 22
        (emptyParagraphStyle\<lparr>namedStyleType := Some ''HEADING_2''\<rparr>) ''namedStyleType'',
      InsertText 22 ''A\<newline>'',
      UpdateParagraphStyle 22 24
        (emptyParagraphStyle\<lparr>namedStyleType := Some ''NORMAL_TEXT''\<rparr>) ''namedStyleType'',
      CreateParagraphBullets 22 24 ''BULLET_DISC_CIRCLE_SQUARE'',
      InsertText 24 ''B\<newline>'',
      UpdateParagraphStyle 24 26
        (emptyParagraphStyle\<lparr>namedStyleType := Some ''NORMAL_TEXT''\<rparr>) ''namedStyleType'',
      CreateParagraphBullets 24 26 ''BULLET_DISC_CIRCLE_SQUARE''])]"
  using replace_decomposition [of "exampleArgs OpReplace ''$.body.content[2]'' (Some [ParagraphItem ''X''])"
      "''doc1''" exampleService exampleWorld "()" "\<lparr>startIndex = Some 20, endIndex = Some 30\<rparr>"
      "[ParagraphItem ''X'']" 20 30]
    replace_decomposition [of "exampleArgs OpReplace ''$.body.content[2]''
        (Some [HeadingItem 2 ''H'', BulletListItem [''A'', ''B'']])"
      "''doc1''" exampleService exampleWorld "()" "\<lparr>startIndex = Some 20, endIndex = Some 30\<rparr>"
      "[HeadingItem 2 ''H'', BulletListItem [''A'', ''B'']]" 20 30]
  by (simp add: exampleArgs_def exampleService_def exampleWorld_def extractDocId_doc1
      show_nat_2)

lemma generate_empty_bulletList: "generateRequestsFromContent [BulletListItem []] i = []"
  by (simp add: generateRequestsFromContent_def)

text \<open>
  Claim C10. For an \<open>insertAfter\<close> or \<open>insertBefore\<close> intent whose content is the single
  item \<open>bulletList{items: []}\<close> and whose uniquely resolved target carries the anchor
  index, the content check passes (the content list is non-empty), compilation produces
  no request at all, and a batch with an empty request list is submitted to the
  document service.
\<close>

theorem empty_bulletList_submits_empty_batch:
  assumes "extractDocId (doc_id_or_url args) = Some docId"
    and "documentsGet svc (remote w) docId = Inr (Some doc)"
    and "jsonPath svc (target args) doc = [t]"
    and "operation args = OpInsertAfter \<or> operation args = OpInsertBefore"
    and "args_content args = Some [BulletListItem []]"
    and "anchorIndex (operation args) t = Some i" and "0 < i"
  shows "\<not> requiredPayloadMissing args
       \<and> generateRequestsFromContent [BulletListItem []] i = []
       \<and> buildRequests args t = Inr ([], ''Insert index: '' @ show_nat i)
       \<and> submitted (snd (handleJsonPathOperation svc w args)) = submitted w @ [(docId, [])]"
proof -
  have p: "\<not> requiredPayloadMissing args"
    using assms(4,5) by (auto simp: requiredPayloadMissing_def)
  have b: "buildRequests args t = Inr ([], ''Insert index: '' @ show_nat i)"
    using assms(4-7)
    by (auto simp: buildRequests_def anchorIndex_def truthy_Some generate_empty_bulletList)
  have "submitted (snd (handleJsonPathOperation svc w args)) = submitted w @ [(docId, [])]"
    using assms(1-3) b by (rule handle_build_submits)
  with p b show ?thesis by (simp add: generate_empty_bulletList)
qed

theorem empty_bulletList_submits_empty_batch_witness:
  "submitted (snd (handleJsonPathOperation exampleService exampleWorld
     (exampleArgs OpInsertAfter ''$.body.content[2]'' (Some [BulletListItem []])))) =
   [(''doc1'', [])]"
  using empty_bulletList_submits_empty_batch [of
      "exampleArgs OpInsertAfter ''$.body.content[2]'' (Some [BulletListItem []])"
      "''doc1''" exampleService exampleWorld "()" "\<lparr>startIndex = Some 20, endIndex = Some 30\<rparr>" 30]
  by (simp add: exampleArgs_def exampleService_def exampleWorld_def extractDocId_doc1
      anchorIndex_def)

lemma buildRequests_zero_start:
  assumes "startIndex t = Some 0" and "operation args \<noteq> OpInsertAfter"
    and "\<not> requiredPayloadMissing args"
  shows "buildRequests args t = Inl (startIndexError (operation args))"
  using assms
  by (cases "operation args")
     (auto simp: buildRequests_def requiredPayloadMissing_def startIndexError_def truthy_Some
           split: option.splits)

lemma buildRequests_payload_missing:
  assumes "requiredPayloadMissing args"
  shows "buildRequests args t = Inl (MissingRequiredPayload (operation args))"
  using assms
  by (cases "operation args")
     (auto simp: buildRequests_def requiredPayloadMissing_def split: option.splits)

lemma buildRequests_lacks_indices:
  assumes "lacksRequiredIndices (operation args) t"
  shows "isl (buildRequests args t)"
  using assms
  by (cases "operation args")
     (auto simp: buildRequests_def lacksRequiredIndices_def split: option.splits)

text \<open>
  Claim C8, as the code has it. Let the target of a \<open>delete\<close>, \<open>replace\<close>,
  \<open>updateTextStyle\<close>, \<open>updateParagraphStyle\<close> or \<open>insertBefore\<close> intent resolve
  uniquely to an element whose \<open>startIndex\<close> is present and zero. Then the handler always
  fails and submits nothing, so such an element cannot be targeted by these operations.
  When the intent carries the payload its operation requires (always, for \<open>delete\<close>),
  the error is the one for a missing index: \<open>does not have a startIndex\<close> for
  \<open>insertBefore\<close>, \<open>must have startIndex and endIndex\<close> for the other four. When the
  payload is missing, the payload check comes first and the error is the one for the
  missing payload.
\<close>

theorem zero_start_index_rejected:
  assumes "extractDocId (doc_id_or_url args) = Some docId"
    and "documentsGet svc (remote w) docId = Inr (Some doc)"
    and "jsonPath svc (target args) doc = [t]"
    and "startIndex t = Some 0"
    and "operation args \<noteq> OpInsertAfter"
  shows "(\<exists>e. handleJsonPathOperation svc w args = (Inl e, w))
       \<and> (\<not> requiredPayloadMissing args \<longrightarrow>
            handleJsonPathOperation svc w args = (Inl (startIndexError (operation args)), w))
       \<and> (requiredPayloadMissing args \<longrightarrow>
            handleJsonPathOperation svc w args =
              (Inl (MissingRequiredPayload (operation args)), w))
       \<and> (operation args = OpDelete \<longrightarrow> \<not> requiredPayloadMissing args)
       \<and> message (startIndexError (operation args)) =
           (if operation args = OpInsertBefore then ''Target element does not have a startIndex''
            else ''Target element must have startIndex and endIndex for ''
                   @ operationName (operation args) @ '' operation'')"
proof -
  have "handleJsonPathOperation svc w args = (Inl (startIndexError (operation args)), w)"
    if "\<not> requiredPayloadMissing args"
  proof -
    have "buildRequests args t = Inl (startIndexError (operation args))"
      using assms(4,5) that by (rule buildRequests_zero_start)
    with assms(1-3) show ?thesis by (rule handle_build_error)
  qed
  moreover have "handleJsonPathOperation svc w args =
      (Inl (MissingRequiredPayload (operation args)), w)"
    if "requiredPayloadMissing args"
  proof -
    have "buildRequests args t = Inl (MissingRequiredPayload (operation args))"
      using that by (rule buildRequests_payload_missing)
    with assms(1-3) show ?thesis by (rule handle_build_error)
  qed
  moreover have "operation args = OpDelete \<longrightarrow> \<not> requiredPayloadMissing args"
    by (simp add: requiredPayloadMissing_def)
  ultimately show ?thesis by (auto simp: startIndexError_def)
qed

theorem zero_start_index_rejected_witness:
  "handleJsonPathOperation exampleService exampleWorld
     (exampleArgs OpDelete ''$.body.content[0]'' None) =
     (Inl (TargetNotRangeable OpDelete), exampleWorld)
   \<and> message (TargetNotRangeable OpDelete) =
       ''Target element must have startIndex and endIndex for delete operation''
   \<and> handleJsonPathOperation exampleService exampleWorld
     (exampleArgs OpInsertBefore ''$.body.content[0]'' (Some [ParagraphItem ''X''])) =
     (Inl MissingStartIndex, exampleWorld)"
  using zero_start_index_rejected [of "exampleArgs OpDelete ''$.body.content[0]'' None"
      "''doc1''" exampleService exampleWorld "()" "\<lparr>startIndex = Some 0, endIndex = Some 1\<rparr>"]
    zero_start_index_rejected [of
      "exampleArgs OpInsertBefore ''$.body.content[0]'' (Some [ParagraphItem ''X''])"
      "''doc1''" exampleService exampleWorld "()" "\<lparr>startIndex = Some 0, endIndex = Some 1\<rparr>"]
  by (simp add: exampleArgs_def exampleService_def exampleWorld_def extractDocId_doc1
      requiredPayloadMissing_def startIndexError_def)

text \<open>
  Claim C8 as stated names the missing-index error for every such intent. A \<open>replace\<close>
  intent without content on the element whose \<open>startIndex\<close> is zero is rejected with the
  error for the missing content instead, whose message is another one.
\<close>

theorem zero_start_payload_first_counterexample:
  "handleJsonPathOperation exampleService exampleWorld
     (exampleArgs OpReplace ''$.body.content[0]'' None) =
     (Inl (MissingRequiredPayload OpReplace), exampleWorld)
   \<and> fst (handleJsonPathOperation exampleService exampleWorld
          (exampleArgs OpReplace ''$.body.content[0]'' None))
       \<noteq> Inl (TargetNotRangeable OpReplace)
   \<and> message (MissingRequiredPayload OpReplace)
       \<noteq> message (TargetNotRangeable OpReplace)"
proof -
  have "buildRequests (exampleArgs OpReplace ''$.body.content[0]'' None)
      \<lparr>startIndex = Some 0, endIndex = Some 1\<rparr> = Inl (MissingRequiredPayload OpReplace)"
    by (simp add: buildRequests_def exampleArgs_def)
  then have "handleJsonPathOperation exampleService exampleWorld
     (exampleArgs OpReplace ''$.body.content[0]'' None) =
     (Inl (MissingRequiredPayload OpReplace), exampleWorld)"
    by (intro handle_build_error [where docId = "''doc1''" and doc = "()"])
      (simp_all add: exampleArgs_def exampleService_def exampleWorld_def extractDocId_doc1)
  then show ?thesis by simp
qed

text \<open>
  Claim C6. An intent that fails validation (its document reference cannot be parsed,
  its required style or content payload is missing, its path expression selects no node
  or several, or the selected node lacks a required index) makes the handler return an
  error with the world unchanged: no batch is submitted and the state of the document
  service is what it was.
\<close>

theorem invalid_intent_submits_nothing:
  assumes "failsValidation svc w args"
  shows "\<exists>e. handleJsonPathOperation svc w args = (Inl e, w)"
proof (cases "extractDocId (doc_id_or_url args)")
  case None
  then show ?thesis by (simp add: handleJsonPathOperation_def)
next
  case (Some docId)
  show ?thesis
  proof (cases "documentsGet svc (remote w) docId")
    case (Inl m)
    with Some show ?thesis by (simp add: handleJsonPathOperation_def)
  next
    case (Inr d)
    show ?thesis
    proof (cases d)
      case None
      with Some Inr show ?thesis by (simp add: handleJsonPathOperation_def)
    next
      case (Some doc)
      note g = \<open>extractDocId (doc_id_or_url args) = Some docId\<close>
      have f: "documentsGet svc (remote w) docId = Inr (Some doc)"
        using Inr Some by simp
      show ?thesis
      proof (cases "length (jsonPath svc (target args) doc) = 1")
        case False
        then show ?thesis using handle_unresolved [OF g f] by simp
      next
        case True
        then obtain t where t: "jsonPath svc (target args) doc = [t]"
          by (cases "jsonPath svc (target args) doc") auto
        from assms g f t
        have "requiredPayloadMissing args \<or> lacksRequiredIndices (operation args) t"
          by (simp add: failsValidation_def)
        then have "isl (buildRequests args t)"
          using buildRequests_payload_missing [of args t] buildRequests_lacks_indices [of args t]
          by auto
        then obtain e where "buildRequests args t = Inl e"
          by (cases "buildRequests args t") auto
        with g f t have "handleJsonPathOperation svc w args = (Inl e, w)"
          by (rule handle_build_error)
        then show ?thesis by blast
      qed
    qed
  qed
qed

theorem invalid_intent_submits_nothing_witness:
  "failsValidation exampleService exampleWorld
     (exampleArgs OpUpdateTextStyle ''$.body.content[2]'' None)
   \<and> (\<exists>e. handleJsonPathOperation exampleService exampleWorld
          (exampleArgs OpUpdateTextStyle ''$.body.content[2]'' None) = (Inl e, exampleWorld))"
proof -
  have f: "failsValidation exampleService exampleWorld
     (exampleArgs OpUpdateTextStyle ''$.body.content[2]'' None)"
    by (simp add: failsValidation_def exampleArgs_def extractDocId_doc1
        requiredPayloadMissing_def)
  show ?thesis using f invalid_intent_submits_nothing [OF f] by simp
qed

section \<open>Field masks\<close>

lemma buildTextStyle_eq: "buildTextStyle ts = (textStylePayload ts, textStyleMask ts)"
  by (simp add: buildTextStyle_def textStylePayload_def textStyleMask_def emptyTextStyle_def
      points_def Let_def split: option.split)

lemma headingLevelName_nonempty: "headingLevelName h \<noteq> []"
  by (cases h) simp_all

lemma alignmentName_nonempty: "alignmentName a \<noteq> []"
  by (cases a) simp_all

lemma directionName_nonempty: "directionName d \<noteq> []"
  by (cases d) simp_all

lemma truthyString_headingLevel:
  "truthyString (map_option headingLevelName x) = (x \<noteq> None)"
  by (cases x) (simp_all add: truthyString_def headingLevelName_nonempty)

lemma truthyString_alignment:
  "truthyString (map_option alignmentName x) = (x \<noteq> None)"
  by (cases x) (simp_all add: truthyString_def alignmentName_nonempty)

lemma truthyString_direction:
  "truthyString (map_option directionName x) = (x \<noteq> None)"
  by (cases x) (simp_all add: truthyString_def directionName_nonempty)

lemma buildParagraphStyle_eq:
  "buildParagraphStyle ps = (paragraphStylePayload ps, paragraphStyleMask ps)"
  by (simp add: buildParagraphStyle_def paragraphStylePayload_def paragraphStyleMask_def
      emptyParagraphStyle_def points_def truthyString_headingLevel truthyString_alignment
      truthyString_direction Let_def split: option.split)


lemma buildRequests_updateTextStyle:
  assumes "operation args = OpUpdateTextStyle" and "args_textStyle args = Some ts"
    and "startIndex t = Some s" and "endIndex t = Some e" and "0 < s" and "0 < e"
  shows "buildRequests args t =
     Inr ([UpdateTextStyle s e (textStylePayload ts) (join '','' (textStyleMask ts))],
          ''Updated text style from index '' @ show_nat s @ '' to '' @ show_nat e)"
  using assms by (simp add: buildRequests_def truthy_Some buildTextStyle_eq)

lemma buildRequests_updateParagraphStyle:
  assumes "operation args = OpUpdateParagraphStyle" and "args_paragraphStyle args = Some ps"
    and "startIndex t = Some s" and "endIndex t = Some e" and "0 < s" and "0 < e"
  shows "buildRequests args t =
     Inr ([UpdateParagraphStyle s e (paragraphStylePayload ps)
             (join '','' (paragraphStyleMask ps))],
          ''Updated paragraph style from index '' @ show_nat s @ '' to '' @ show_nat e)"
  using assms by (simp add: buildRequests_def truthy_Some buildParagraphStyle_eq)

lemma textStyleMask_member:
  "n \<in> set (textStyleMask ts) \<longleftrightarrow>
     n = ''bold'' \<and> ts_bold ts \<noteq> None \<or> n = ''italic'' \<and> ts_italic ts \<noteq> None \<or>
     n = ''underline'' \<and> ts_underline ts \<noteq> None \<or>
     n = ''strikethrough'' \<and> ts_strikethrough ts \<noteq> None \<or>
     n = ''fontSize'' \<and> ts_fontSize ts \<noteq> None \<or>
     n = ''foregroundColor'' \<and> ts_foregroundColor ts \<noteq> None \<or>
     n = ''backgroundColor'' \<and> ts_backgroundColor ts \<noteq> None \<or>
     n = ''link'' \<and> ts_link ts \<noteq> None"
  unfolding textStyleMask_def set_append by (simp only: Un_iff) auto

lemma paragraphStyleMask_member:
  "n \<in> set (paragraphStyleMask ps) \<longleftrightarrow>
     n = ''namedStyleType'' \<and> ps_headingLevel ps \<noteq> None \<or>
     n = ''alignment'' \<and> ps_alignment ps \<noteq> None \<or>
     n = ''lineSpacing'' \<and> ps_lineSpacing ps \<noteq> None \<or>
     n = ''direction'' \<and> ps_direction ps \<noteq> None \<or>
     n = ''indentStart'' \<and> ps_indentStart ps \<noteq> None \<or>
     n = ''indentEnd'' \<and> ps_indentEnd ps \<noteq> None \<or>
     n = ''indentFirstLine'' \<and> ps_indentFirstLine ps \<noteq> None"
  unfolding paragraphStyleMask_def set_append by (simp only: Un_iff) auto

text \<open>
  Claim C4. For an \<open>updateTextStyle\<close> or \<open>updateParagraphStyle\<close> intent on a target
  with both indices, the single request emitted carries the payload and the field mask
  of the patch: an attribute is named in the mask if and only if it is present in the
  patch (under the service's name for it, \<open>namedStyleType\<close> for \<open>headingLevel\<close>), and a
  boolean that is present is carried in the payload with its value, \<open>false\<close> included.
  The witness is the patch \<open>{bold: true}\<close>, whose mask is exactly \<open>bold\<close>, and the patch
  \<open>{bold: false}\<close>.
\<close>

theorem field_mask_sparsity:
  assumes "startIndex t = Some s" and "endIndex t = Some e" and "0 < s" and "0 < e"
  shows "(operation args = OpUpdateTextStyle \<and> args_textStyle args = Some ts \<longrightarrow>
            buildRequests args t =
              Inr ([UpdateTextStyle s e (textStylePayload ts) (join '','' (textStyleMask ts))],
                   ''Updated text style from index '' @ show_nat s @ '' to '' @ show_nat e))
       \<and> (operation args = OpUpdateParagraphStyle \<and> args_paragraphStyle args = Some ps \<longrightarrow>
            buildRequests args t =
              Inr ([UpdateParagraphStyle s e (paragraphStylePayload ps)
                      (join '','' (paragraphStyleMask ps))],
                   ''Updated paragraph style from index '' @ show_nat s @ '' to ''
                     @ show_nat e))
       \<and> (\<forall>n. n \<in> set (textStyleMask ts) \<longleftrightarrow>
              n = ''bold'' \<and> ts_bold ts \<noteq> None \<or> n = ''italic'' \<and> ts_italic ts \<noteq> None \<or>
              n = ''underline'' \<and> ts_underline ts \<noteq> None \<or>
              n = ''strikethrough'' \<and> ts_strikethrough ts \<noteq> None \<or>
              n = ''fontSize'' \<and> ts_fontSize ts \<noteq> None \<or>
              n = ''foregroundColor'' \<and> ts_foregroundColor ts \<noteq> None \<or>
              n = ''backgroundColor'' \<and> ts_backgroundColor ts \<noteq> None \<or>
              n = ''link'' \<and> ts_link ts \<noteq> None)
       \<and> (\<forall>n. n \<in> set (paragraphStyleMask ps) \<longleftrightarrow>
              n = ''namedStyleType'' \<and> ps_headingLevel ps \<noteq> None \<or>
              n = ''alignment'' \<and> ps_alignment ps \<noteq> None \<or>
              n = ''lineSpacing'' \<and> ps_lineSpacing ps \<noteq> None \<or>
              n = ''direction'' \<and> ps_direction ps \<noteq> None \<or>
              n = ''indentStart'' \<and> ps_indentStart ps \<noteq> None \<or>
              n = ''indentEnd'' \<and> ps_indentEnd ps \<noteq> None \<or>
              n = ''indentFirstLine'' \<and> ps_indentFirstLine ps \<noteq> None)
       \<and> bold (textStylePayload ts) = ts_bold ts
       \<and> italic (textStylePayload ts) = ts_italic ts
       \<and> underline (textStylePayload ts) = ts_underline ts
       \<and> strikethrough (textStylePayload ts) = ts_strikethrough ts"
proof -
  have a: "operation args = OpUpdateTextStyle \<and> args_textStyle args = Some ts \<longrightarrow>
            buildRequests args t =
              Inr ([UpdateTextStyle s e (textStylePayload ts) (join '','' (textStyleMask ts))],
                   ''Updated text style from index '' @ show_nat s @ '' to '' @ show_nat e)"
    using assms buildRequests_updateTextStyle [of args ts t s e] by blast
  have b: "operation args = OpUpdateParagraphStyle \<and> args_paragraphStyle args = Some ps \<longrightarrow>
            buildRequests args t =
              Inr ([UpdateParagraphStyle s e (paragraphStylePayload ps)
                      (join '','' (paragraphStyleMask ps))],
                   ''Updated paragraph style from index '' @ show_nat s @ '' to ''
                     @ show_nat e)"
    using assms buildRequests_updateParagraphStyle [of args ps t s e] by blast
  have c: "bold (textStylePayload ts) = ts_bold ts \<and> italic (textStylePayload ts) = ts_italic ts
       \<and> underline (textStylePayload ts) = ts_underline ts
       \<and> strikethrough (textStylePayload ts) = ts_strikethrough ts"
    by (simp add: textStylePayload_def)
  from a b c textStyleMask_member [of _ ts] paragraphStyleMask_member [of _ ps]
  show ?thesis by blast
qed

lemma show_nat_20: "show_nat 20 = ''20''"
  by (simp add: show_nat.simps digit_char_def)

lemma show_nat_30: "show_nat 30 = ''30''"
  by (simp add: show_nat.simps digit_char_def)

theorem field_mask_sparsity_witness:
  "buildRequests
     ((exampleArgs OpUpdateTextStyle ''$.body.content[2]'' None)
        \<lparr>args_textStyle := Some (emptyTextPatch\<lparr>ts_bold := Some True\<rparr>)\<rparr>)
     \<lparr>startIndex = Some 20, endIndex = Some 30\<rparr> =
     Inr ([UpdateTextStyle 20 30 (emptyTextStyle\<lparr>bold := Some True\<rparr>) ''bold''],
          ''Updated text style from index 20 to 30'')
   \<and> buildRequests
     ((exampleArgs OpUpdateTextStyle ''$.body.content[2]'' None)
        \<lparr>args_textStyle := Some (emptyTextPatch\<lparr>ts_bold := Some False\<rparr>)\<rparr>)
     \<lparr>startIndex = Some 20, endIndex = Some 30\<rparr> =
     Inr ([UpdateTextStyle 20 30 (emptyTextStyle\<lparr>bold := Some False\<rparr>) ''bold''],
          ''Updated text style from index 20 to 30'')"
  using field_mask_sparsity [of "\<lparr>startIndex = Some 20, endIndex = Some 30\<rparr>" 20 30
      "(exampleArgs OpUpdateTextStyle ''$.body.content[2]'' None)
        \<lparr>args_textStyle := Some (emptyTextPatch\<lparr>ts_bold := Some True\<rparr>)\<rparr>"
      "emptyTextPatch\<lparr>ts_bold := Some True\<rparr>" emptyParagraphPatch]
    field_mask_sparsity [of "\<lparr>startIndex = Some 20, endIndex = Some 30\<rparr>" 20 30
      "(exampleArgs OpUpdateTextStyle ''$.body.content[2]'' None)
        \<lparr>args_textStyle := Some (emptyTextPatch\<lparr>ts_bold := Some False\<rparr>)\<rparr>"
      "emptyTextPatch\<lparr>ts_bold := Some False\<rparr>" emptyParagraphPatch]
  by (simp add: exampleArgs_def emptyTextPatch_def textStylePayload_def textStyleMask_def
      emptyTextStyle_def show_nat_20 show_nat_30)

section \<open>The style composer\<close>

text \<open>
  Claim C5. A run whose text is exactly one newline is returned unformatted. Every other
  run is wrapped, from the inside out, in the emphasis marker (\<open>***\<close> for bold and
  italic, else \<open>**\<close> for bold, else \<open>*\<close> for italic), then \<open>__\<close> for underline, then
  \<open>~~\<close> for strikethrough, then \<open>[\<close> and \<open>](url)\<close> for a link, then a backquote for a
  monospace font: the decorations are inside the link, and the link is inside the code
  marker. A marker whose flag is not set is empty.
\<close>

theorem style_composer_order:
  "processTextRun r =
     (if runText r = ''\<newline>'' then ''\<newline>''
      else codeMark r @ linkOpen r @ strikeMark r @ underlineMark r @ emphasisMark r
             @ runText r
             @ emphasisMark r @ underlineMark r @ strikeMark r @ linkClose r @ codeMark r)"
proof (cases "textStyle r")
  case None
  then show ?thesis
    by (simp add: processTextRun_def runText_def runStyle_def codeMark_def linkOpen_def
        linkClose_def strikeMark_def underlineMark_def emphasisMark_def linkUrl_def
        isMonospace_def emptyTextStyle_def truthyBool_def)
next
  case (Some style)
  have l: "truthyString (case link style of None \<Rightarrow> None | Some l \<Rightarrow> url l) = (linkUrl r \<noteq> [])"
    using Some
    by (simp add: linkUrl_def runStyle_def truthyString_def orEmpty_def split: option.split)
  have u: "linkUrl r \<noteq> [] \<Longrightarrow> the (url (the (link style))) = linkUrl r"
    using Some
    by (simp add: linkUrl_def runStyle_def orEmpty_def split: option.splits)
  have m: "((case weightedFontFamily style of None \<Rightarrow> False | Some f \<Rightarrow> includesStr f ''Courier'')
          \<or> (case weightedFontFamily style of None \<Rightarrow> False | Some f \<Rightarrow> includesStr f ''Mono''))
        = isMonospace r"
    using Some by (simp add: isMonospace_def runStyle_def split: option.split)
  show ?thesis
    using Some u
    by (simp add: processTextRun_def Let_def l m runText_def [symmetric] codeMark_def
        linkOpen_def linkClose_def strikeMark_def underlineMark_def emphasisMark_def
        runStyle_def)
qed


theorem style_composer_order_witness:
  "processTextRun
     \<lparr>content = Some ''x'',
      textStyle = Some (emptyTextStyle\<lparr>bold := Some True, italic := Some True,
        underline := Some True, strikethrough := Some True,
        link := Some \<lparr>url = Some ''u''\<rparr>, weightedFontFamily := Some ''Roboto Mono''\<rparr>)\<rparr>
   = [CHR 0x60] @ ''[~~__***x***__~~](u)'' @ [CHR 0x60]"
  using style_composer_order [of "\<lparr>content = Some ''x'',
      textStyle = Some (emptyTextStyle\<lparr>bold := Some True, italic := Some True,
        underline := Some True, strikethrough := Some True,
        link := Some \<lparr>url = Some ''u''\<rparr>, weightedFontFamily := Some ''Roboto Mono''\<rparr>)\<rparr>"]
  by (simp add: runText_def runStyle_def codeMark_def linkOpen_def linkClose_def
      strikeMark_def underlineMark_def emphasisMark_def linkUrl_def isMonospace_def
      emptyTextStyle_def truthyBool_def orEmpty_def)

section \<open>Paragraphs\<close>

lemma paragraphText_bullet: "paragraphText (p\<lparr>bullet := b\<rparr>) = paragraphText p"
  by (simp add: paragraphText_def)

lemma processParagraph_named:
  assumes "map_of headingPrefixes sty = Some prefix" and "namedStyleOf p = Some sty"
  shows "processParagraph p =
     (if paragraphText p = [] then ''\<newline>''
      else prefix @ paragraphText p @ ''\<newline>\<newline>'')"
  using assms
  by (auto simp: headingPrefixes_def namedStyleOf_def processParagraph_def Let_def
      split: if_splits)

text \<open>
  Claim C9. A paragraph with a recognized named style (\<open>HEADING_1\<close> to \<open>HEADING_6\<close>,
  \<open>TITLE\<close>, \<open>SUBTITLE\<close>) is rendered as the prefix of that style, its text and a blank
  line, or as a single newline when its text is empty; and its rendering is the same
  whatever bullet descriptor it carries. So the list indent and marker are never
  emitted for it: the bullet branch is reached only without a recognized named style.
\<close>

theorem named_style_precedence:
  assumes "map_of headingPrefixes sty = Some prefix" and "namedStyleOf p = Some sty"
  shows "processParagraph p =
           (if paragraphText p = [] then ''\<newline>''
            else prefix @ paragraphText p @ ''\<newline>\<newline>'')
       \<and> processParagraph (p\<lparr>bullet := b\<rparr>) = processParagraph p"
proof -
  have "namedStyleOf (p\<lparr>bullet := b\<rparr>) = Some sty"
    using assms(2) by (simp add: namedStyleOf_def)
  with assms(1) have "processParagraph (p\<lparr>bullet := b\<rparr>) =
     (if paragraphText (p\<lparr>bullet := b\<rparr>) = [] then ''\<newline>''
      else prefix @ paragraphText (p\<lparr>bullet := b\<rparr>) @ ''\<newline>\<newline>'')"
    by (rule processParagraph_named)
  then show ?thesis
    using processParagraph_named [OF assms] by (simp add: paragraphText_bullet)
qed

lemma paragraphText_abc:
  "paragraphText (exampleParagraph sty b [exampleRun ''abc\<newline>'' emptyTextStyle]) = ''abc''"
  by (simp add: paragraphText_def exampleParagraph_def exampleRun_def orEmpty_def
      processTextRun_def emptyTextStyle_def truthyBool_def truthyString_def
      stripTrailingNewlines_def)

theorem named_style_precedence_witness:
  "processParagraph (exampleParagraph (Some ''HEADING_3'') (Some \<lparr>nestingLevel = Some 1\<rparr>)
      [exampleRun ''abc\<newline>'' emptyTextStyle]) = ''### abc\<newline>\<newline>''"
  using named_style_precedence [of "''HEADING_3''" "''### ''"
      "exampleParagraph (Some ''HEADING_3'') (Some \<lparr>nestingLevel = Some 1\<rparr>)
         [exampleRun ''abc\<newline>'' emptyTextStyle]"]
  by (simp add: headingPrefixes_def namedStyleOf_def paragraphText_abc)
    (simp add: exampleParagraph_def emptyParagraphStyle_def)

lemma bullet_branch_example:
  "processParagraph (exampleParagraph (Some ''NORMAL_TEXT'') (Some \<lparr>nestingLevel = Some 1\<rparr>)
      [exampleRun ''abc\<newline>'' emptyTextStyle]) = ''  - abc\<newline>''"
  by (simp add: processParagraph_def paragraphText_abc Let_def)
    (simp add: exampleParagraph_def emptyParagraphStyle_def repeat_def)


section \<open>Tables\<close>

lemma trim_Nil: "trim [] = []"
  by (simp add: trim_def)

lemma replaceNewlines_Nil: "replaceNewlines [] = []"
  by (simp add: replaceNewlines_def)

lemma runCellText_runs:
  "runCellText e = concat (map (\<lambda>c. trim (replaceNewlines c)) (elementRuns e))"
  by (simp add: runCellText_def elementRuns_def truthyString_def trim_Nil replaceNewlines_Nil
      split: option.split)

lemma concat_map_runCellText:
  "concat (map runCellText es) =
     concat (map (\<lambda>c. trim (replaceNewlines c)) (concat (map elementRuns es)))"
  by (induction es) (simp_all add: runCellText_runs)

lemma elementCellText_runs:
  "elementCellText el =
     concat (map (\<lambda>c. trim (replaceNewlines c))
       (case elParagraph el of
          None \<Rightarrow> []
        | Some p \<Rightarrow> concat (map elementRuns (orEmpty (elements p)))))"
  by (simp add: elementCellText_def concat_map_runCellText split: option.split)

lemma concat_map_elementCellText:
  "concat (map elementCellText els) =
     concat (map (\<lambda>c. trim (replaceNewlines c))
       (concat (map (\<lambda>el. case elParagraph el of
                              None \<Rightarrow> []
                            | Some p \<Rightarrow> concat (map elementRuns (orEmpty (elements p)))) els)))"
  by (induction els) (simp_all add: elementCellText_runs)

lemma cellContentText_perRun: "cellContentText cell = cellTextPerRun cell"
  by (simp add: cellContentText_def cellTextPerRun_def cellRuns_def concat_map_elementCellText)

lemma map_const_replicate: "map (\<lambda>c. x) xs = replicate (length xs) x"
  by (induction xs) simp_all

lemma tableRowsLoop_later:
  "tableRowsLoop rows (Suc i) markdown = markdown @ concat (map (rowLine cellTextPerRun) rows)"
proof (induction rows arbitrary: i markdown)
  case Nil
  show ?case by simp
next
  case (Cons row rows)
  show ?case
    by (simp add: Let_def Cons.IH rowLine_def cellContentText_perRun cong: map_cong)
qed

lemma tableRowsLoop_first:
  "tableRowsLoop (row # rows) 0 markdown =
     markdown @ rowLine cellTextPerRun row @ separatorLine row
       @ concat (map (rowLine cellTextPerRun) rows)"
  by (simp add: Let_def tableRowsLoop_later rowLine_def separatorLine_def
      cellContentText_perRun map_const_replicate cong: map_cong)

text \<open>
  Claim C7, as the code has it. A table with no row renders as the empty string. For
  every other table the renderer emits, between two newlines, one pipe-delimited line
  per row, and immediately after the line of the first row a separator line with as
  many \<open>---\<close> cells as that row has cells. The text of a cell is the concatenation, over
  the text runs of the paragraphs directly in the cell, of each run with its newlines
  replaced by spaces and then trimmed on its own; a cell whose text is empty is rendered
  as a single space.
\<close>

theorem table_rendering: "processTable t = tableMarkdown cellTextPerRun t"
  by (cases "orEmpty (tableRows t)")
    (simp_all add: processTable_def tableMarkdown_def tableRowsLoop_first
      del: tableRowsLoop.simps(2))

lemma cellRuns_example:
  "cellRuns (exampleCell [exampleRun ''Hello '' emptyTextStyle,
      exampleRun ''world\<newline>'' emptyTextStyle]) = [''Hello '', ''world\<newline>'']"
  by (simp add: cellRuns_def exampleCell_def exampleParagraph_def exampleRun_def orEmpty_def
      elementRuns_def)

lemma trim_examples:
  "trim ''Hello '' = ''Hello''" "trim ''world '' = ''world''"
  "trim ''Hello world '' = ''Hello world''"
  by (simp_all add: trim_def isWhiteSpace_def)

lemma tableMarkdown_perRun_example:
  "tableMarkdown cellTextPerRun exampleTable =
     ''\<newline>| Helloworld |\<newline>| --- |\<newline>\<newline>''"
  by (simp add: tableMarkdown_def exampleTable_def orEmpty_def rowLine_def separatorLine_def
      cellTextPerRun_def cellRuns_example replaceNewlines_def trim_examples)

lemma tableMarkdown_whole_example:
  "tableMarkdown cellTextWhole exampleTable =
     ''\<newline>| Hello world |\<newline>| --- |\<newline>\<newline>''"
  by (simp add: tableMarkdown_def exampleTable_def orEmpty_def rowLine_def separatorLine_def
      cellTextWhole_def cellRuns_example replaceNewlines_def trim_examples)

theorem table_rendering_witness:
  "processTable exampleTable = ''\<newline>| Helloworld |\<newline>| --- |\<newline>\<newline>''"
  using table_rendering [of exampleTable] by (simp add: tableMarkdown_perRun_example)

text \<open>
  Read as trimming the concatenation of the runs, claim C7 fails: a cell with the runs
  \<open>"Hello "\<close> and \<open>"world\n"\<close> is rendered as \<open>Helloworld\<close>, not as \<open>Hello world\<close>.
\<close>

theorem table_cell_text_whole_counterexample:
  "processTable exampleTable \<noteq> tableMarkdown cellTextWhole exampleTable"
proof -
  have "processTable exampleTable = ''\<newline>| Helloworld |\<newline>| --- |\<newline>\<newline>''"
    by (simp add: processTable_def exampleTable_def orEmpty_def Let_def cellContentText_perRun
        cellTextPerRun_def cellRuns_example replaceNewlines_def trim_examples)
  then show ?thesis by (simp add: tableMarkdown_whole_example)
qed

end
